theory Spec2Isabelle
  imports Complex_Main "HOL-Library.Log_Nat"
begin

section \<open>JavaScript values used by the exam session\<close>

text \<open>
  A JavaScript \<^verbatim>\<open>Map\<close> keeps its entries in insertion order, and the reducer of
  \<^verbatim>\<open>ExamInterface.tsx\<close> reads that order (\<^verbatim>\<open>Array.from(state.statuses.keys())[i]\<close>).
  A map is therefore a list of entries: \<open>map_get\<close> is \<^verbatim>\<open>Map.get\<close> (\<open>None\<close> is
  \<^verbatim>\<open>undefined\<close>), \<open>map_set\<close> is \<^verbatim>\<open>Map.set\<close> (an existing key keeps its position, a
  new key goes to the end), \<open>key_at\<close> is the indexing of the array of keys, which is
  \<^verbatim>\<open>undefined\<close> outside the array.
\<close>

type_synonym ('k, 'v) js_map = "('k \<times> 'v) list"

fun map_get :: "('k, 'v) js_map \<Rightarrow> 'k \<Rightarrow> 'v option" where
  "map_get [] k = None"
| "map_get ((k', v) # m) k = (if k' = k then Some v else map_get m k)"

fun map_set :: "('k, 'v) js_map \<Rightarrow> 'k \<Rightarrow> 'v \<Rightarrow> ('k, 'v) js_map" where
  "map_set [] k v = [(k, v)]"
| "map_set ((k', v') # m) k v =
     (if k' = k then (k, v) # m else (k', v') # map_set m k v)"

definition key_at :: "('k, 'v) js_map \<Rightarrow> int \<Rightarrow> 'k option" where
  "key_at m i = (if 0 \<le> i \<and> i < int (length m) then Some (fst (m ! nat i)) else None)"

text \<open>
  Text that the program trims or compares (answers, inputs and outputs of test cases,
  messages of the execution service) is a JavaScript string: a list of UTF-16 code
  units, each a number below 65536. \<open>ascii\<close> writes such a string from its ASCII
  characters. Identifiers, titles and source code are only stored, looked up and tested
  for emptiness; they stay of type \<open>string\<close>.
\<close>

type_synonym js_string = "nat list"

definition ascii :: "string \<Rightarrow> js_string" where
  "ascii s = map of_char s"

text \<open>
  \<^verbatim>\<open>String.prototype.trim\<close> removes white space and line terminators from both ends:
  TAB, LF, VT, FF, CR, SPACE, NBSP (U+00A0), U+1680, U+2000 to U+200A, LS (U+2028),
  PS (U+2029), U+202F, U+205F, U+3000 and the byte order mark U+FEFF.
\<close>

definition is_ws :: "nat \<Rightarrow> bool" where
  "is_ws c = (c \<in> {0x09, 0x0A, 0x0B, 0x0C, 0x0D, 0x20, 0xA0, 0x1680, 0x2028, 0x2029,
                    0x202F, 0x205F, 0x3000, 0xFEFF} \<or> (0x2000 \<le> c \<and> c \<le> 0x200A))"

definition trim :: "js_string \<Rightarrow> js_string" where
  "trim s = rev (dropWhile is_ws (rev (dropWhile is_ws s)))"

section \<open>JavaScript numbers\<close>

text \<open>
  A number that the program only counts with (an index, a count of seconds, exits or
  test cases, and marks of 0 or 100 with their sums) is an integer, exact in double
  precision below \<open>2^53\<close>, and is modelled by \<open>int\<close> or \<open>nat\<close>. The quotients and
  products of the scoring are doubles: a double is the rational it denotes, and every
  operation returns the exact result rounded to the nearest double, ties to the even
  significand. \<open>binary_exponent x\<close> is the \<open>e\<close> with \<open>2^e \<le> x < 2^(e+1)\<close> for a positive
  \<open>x\<close>; the spacing of the doubles around \<open>x\<close> is \<open>2^(e - 52)\<close>, from the exponent
  \<open>- 1022\<close> downwards \<open>2^(- 1074)\<close>. Results beyond the largest double do not occur in
  the scoring, and every division of the scoring is guarded by a test of its divisor:
  infinities and \<^verbatim>\<open>NaN\<close> are not modelled.
\<close>

definition pow2 :: "int \<Rightarrow> rat" where
  "pow2 k = (if 0 \<le> k then 2 ^ nat k else 1 / 2 ^ nat (- k))"

definition binary_exponent :: "rat \<Rightarrow> int" where
  "binary_exponent x =
     (let d = bitlen (fst (quotient_of x)) - bitlen (snd (quotient_of x))
      in if pow2 d \<le> x then d else d - 1)"

definition round_half_even :: "rat \<Rightarrow> int" where
  "round_half_even q =
     (let f = \<lfloor>q\<rfloor>; r = q - of_int f
      in if r < 1 / 2 then f else if 1 / 2 < r then f + 1 else if even f then f else f + 1)"

definition round_double :: "rat \<Rightarrow> rat" where
  "round_double x =
     (if x = 0 then 0
      else (let a = \<bar>x\<bar>; u = pow2 (max (binary_exponent a) (- 1022) - 52)
            in sgn x * of_int (round_half_even (a / u)) * u))"

text \<open>The JavaScript operators \<^verbatim>\<open>/\<close>, \<^verbatim>\<open>*\<close> and \<^verbatim>\<open>+\<close> on doubles.\<close>

definition ddiv :: "rat \<Rightarrow> rat \<Rightarrow> rat" where
  "ddiv a b = round_double (a / b)"

definition dmul :: "rat \<Rightarrow> rat \<Rightarrow> rat" where
  "dmul a b = round_double (a * b)"

definition dadd :: "rat \<Rightarrow> rat \<Rightarrow> rat" where
  "dadd a b = round_double (a + b)"

section \<open>The exam session reducer (ExamInterface.tsx)\<close>

datatype QuestionStatus = answered | not_answered | marked_for_review | not_visited

text \<open>An entry of \<^verbatim>\<open>answers: Map<string, number | string | null>\<close>.\<close>

datatype answer_value = NumberAns int | StringAns js_string | NullAns

record State =
  currentQuestionIndex :: int
  answers :: "(string, answer_value) js_map"
  statuses :: "(string, QuestionStatus) js_map"
  timeLeft :: int
  examStarted :: bool
  examFinished :: bool
  totalQuestions :: int

datatype AnswerPayload =
    Mcq string int            \<comment> \<open>questionId, optionIndex\<close>
  | LongAnswer string js_string  \<comment> \<open>questionId, textAnswer\<close>

datatype Action =
    INITIALIZE State
  | START_EXAM
  | NEXT_QUESTION
  | PREV_QUESTION
  | JUMP_TO_QUESTION int
  | ANSWER AnswerPayload
  | CLEAR_ANSWER string
  | TOGGLE_MARK_FOR_REVIEW string
  | TICK_TIMER
  | FINISH_EXAM

text \<open>
  The visiting step shared by \<^verbatim>\<open>START_EXAM\<close>, \<^verbatim>\<open>NEXT_QUESTION\<close> and
  \<^verbatim>\<open>JUMP_TO_QUESTION\<close>: the key at position \<open>i\<close> is looked up, and only a status
  \<^verbatim>\<open>'not-visited'\<close> is overwritten. An index outside the keys gives \<^verbatim>\<open>undefined\<close>,
  whose status is \<^verbatim>\<open>undefined\<close>, and nothing is written.
\<close>

definition visit :: "(string, QuestionStatus) js_map \<Rightarrow> int \<Rightarrow> (string, QuestionStatus) js_map" where
  "visit st i =
     (case key_at st i of
        None \<Rightarrow> st
      | Some questionId \<Rightarrow>
          (if map_get st questionId = Some not_visited
           then map_set st questionId not_answered else st))"

definition payload_questionId :: "AnswerPayload \<Rightarrow> string" where
  "payload_questionId p = (case p of Mcq q _ \<Rightarrow> q | LongAnswer q _ \<Rightarrow> q)"

definition payload_value :: "AnswerPayload \<Rightarrow> answer_value" where
  "payload_value p = (case p of Mcq _ n \<Rightarrow> NumberAns n | LongAnswer _ t \<Rightarrow> StringAns t)"

text \<open>\<^verbatim>\<open>state.answers.get(id) != null\<close>: neither \<^verbatim>\<open>undefined\<close> nor \<^verbatim>\<open>null\<close>.\<close>

definition has_answer :: "(string, answer_value) js_map \<Rightarrow> string \<Rightarrow> bool" where
  "has_answer m q = (case map_get m q of None \<Rightarrow> False | Some NullAns \<Rightarrow> False | Some _ \<Rightarrow> True)"

fun examReducer :: "State \<Rightarrow> Action \<Rightarrow> State" where
  "examReducer state (INITIALIZE payload) = payload"
| "examReducer state START_EXAM =
     (if statuses state = [] then state\<lparr>examStarted := True\<rparr>
      else state\<lparr>examStarted := True, statuses := visit (statuses state) 0\<rparr>)"
| "examReducer state NEXT_QUESTION =
     (let nextIndex = min (currentQuestionIndex state + 1) (totalQuestions state - 1)
      in state\<lparr>currentQuestionIndex := nextIndex, statuses := visit (statuses state) nextIndex\<rparr>)"
| "examReducer state PREV_QUESTION =
     (let prevIndex = max (currentQuestionIndex state - 1) 0
      in state\<lparr>currentQuestionIndex := prevIndex\<rparr>)"
| "examReducer state (JUMP_TO_QUESTION payload) =
     state\<lparr>currentQuestionIndex := payload, statuses := visit (statuses state) payload\<rparr>"
| "examReducer state (ANSWER payload) =
     (let newAnswers = map_set (answers state) (payload_questionId payload) (payload_value payload);
          newStatuses =
            (if map_get (statuses state) (payload_questionId payload) \<noteq> Some marked_for_review
             then map_set (statuses state) (payload_questionId payload) answered
             else statuses state)
      in state\<lparr>answers := newAnswers, statuses := newStatuses\<rparr>)"
| "examReducer state (CLEAR_ANSWER payload) =
     (let newAnswers = map_set (answers state) payload NullAns;
          newStatuses =
            (if map_get (statuses state) payload \<noteq> Some marked_for_review
             then map_set (statuses state) payload not_answered
             else statuses state)
      in state\<lparr>answers := newAnswers, statuses := newStatuses\<rparr>)"
| "examReducer state (TOGGLE_MARK_FOR_REVIEW payload) =
     (if map_get (statuses state) payload = Some marked_for_review
      then state\<lparr>statuses := map_set (statuses state) payload
                     (if has_answer (answers state) payload then answered else not_answered)\<rparr>
      else state\<lparr>statuses := map_set (statuses state) payload marked_for_review\<rparr>)"
| "examReducer state TICK_TIMER =
     (if timeLeft state \<le> 1 then state\<lparr>timeLeft := 0, examFinished := True\<rparr>
      else state\<lparr>timeLeft := timeLeft state - 1\<rparr>)"
| "examReducer state FINISH_EXAM = state\<lparr>examFinished := True, timeLeft := 0\<rparr>"

text \<open>The index invariant of the data model: \<open>0 \<le> currentQuestionIndex < totalQuestions\<close>.\<close>

definition index_ok :: "State \<Rightarrow> bool" where
  "index_ok s = (0 \<le> currentQuestionIndex s \<and> currentQuestionIndex s < totalQuestions s)"

text \<open>A three-question session used to evaluate the reducer.\<close>

definition session3 :: State where
  "session3 =
     \<lparr> currentQuestionIndex = 2,
       answers = [],
       statuses = [(''q1'', not_answered), (''q2'', not_visited), (''q3'', not_answered)],
       timeLeft = 600,
       examStarted = True,
       examFinished = False,
       totalQuestions = 3 \<rparr>"

text \<open>
  The session as it is loaded, before the start; \<open>session3\<close> is reached from it by
  starting the exam and jumping to the third question.
\<close>

definition fresh3 :: State where
  "fresh3 =
     \<lparr> currentQuestionIndex = 0,
       answers = [],
       statuses = [(''q1'', not_visited), (''q2'', not_visited), (''q3'', not_visited)],
       timeLeft = 600,
       examStarted = False,
       examFinished = False,
       totalQuestions = 3 \<rparr>"

definition finished3 :: State where
  "finished3 = session3\<lparr>examFinished := True, timeLeft := 0\<rparr>"

definition marked3 :: State where
  "marked3 =
     session3\<lparr>statuses := [(''q1'', not_answered), (''q2'', marked_for_review),
                            (''q3'', not_answered)]\<rparr>"

section \<open>The coding session reducer (CodingExamInterface.tsx)\<close>

text \<open>
  The records of \<^verbatim>\<open>types\<close>: a property that may be absent is an \<open>option\<close>. Field names
  that occur in several interfaces carry a prefix (\<open>tc_\<close> test case, \<open>tr_\<close> test result,
  \<open>q_\<close> question, \<open>in_\<close>/\<open>out_\<close> input and output of the execution flow, \<open>c_\<close> coding
  state, \<open>sub_\<close> submission). Marks and scores are doubles.
\<close>

datatype Language = python | cpp | java | javascript

record TestCase =
  tc_id :: "string option"
  tc_input :: js_string
  tc_expectedOutput :: js_string

record TestResult =
  tr_input :: js_string
  tr_expectedOutput :: js_string
  tr_actualOutput :: js_string
  tr_isCorrect :: bool
  tr_error :: "js_string option"

record StudentAnswer =
  questionId :: string
  questionText :: "string option"
  status :: "QuestionStatus option"
  marks :: "rat option"
  selectedOption :: "int option option"
  correctOption :: "int option option"
  options :: "string list option"
  textAnswer :: "js_string option"
  sourceCode :: "string option"
  testResults :: "TestResult list option"
  totalPassed :: "nat option"
  totalCases :: "nat option"

text \<open>The object \<^verbatim>\<open>{ questionId: id }\<close>, every other property absent.\<close>

definition blank_answer :: "string \<Rightarrow> StudentAnswer" where
  "blank_answer qid =
     \<lparr> questionId = qid, questionText = None, status = None, marks = None,
       selectedOption = None, correctOption = None, options = None, textAnswer = None,
       sourceCode = None, testResults = None, totalPassed = None, totalCases = None \<rparr>"

record CodingState =
  c_timeLeft :: int
  c_examStarted :: bool
  c_examFinished :: bool
  c_answers :: "(string, StudentAnswer) js_map"
  c_language :: Language

datatype CodingAction =
    C_INITIALIZE CodingState
  | C_START_EXAM
  | UPDATE_CODE string string              \<comment> \<open>questionId, sourceCode\<close>
  | UPDATE_LANGUAGE Language
  | SET_RUN_RESULTS string "TestResult list"  \<comment> \<open>questionId, results\<close>
  | C_TICK_TIMER
  | C_FINISH_EXAM

text \<open>
  The function is called \<^verbatim>\<open>examReducer\<close> in \<^verbatim>\<open>CodingExamInterface.tsx\<close> as well; here
  it is \<open>codingReducer\<close>, and its shared action names carry the prefix \<open>C_\<close>.
\<close>

fun codingReducer :: "CodingState \<Rightarrow> CodingAction \<Rightarrow> CodingState" where
  "codingReducer state (C_INITIALIZE payload) = payload"
| "codingReducer state C_START_EXAM = state\<lparr>c_examStarted := True\<rparr>"
| "codingReducer state (UPDATE_CODE qid src) =
     (let answer = (case map_get (c_answers state) qid of
                      None \<Rightarrow> blank_answer qid | Some a \<Rightarrow> a)
      in state\<lparr>c_answers := map_set (c_answers state) qid (answer\<lparr>sourceCode := Some src\<rparr>)\<rparr>)"
| "codingReducer state (UPDATE_LANGUAGE l) = state\<lparr>c_language := l\<rparr>"
| "codingReducer state (SET_RUN_RESULTS qid results) =
     (let answer = (case map_get (c_answers state) qid of
                      None \<Rightarrow> blank_answer qid | Some a \<Rightarrow> a);
          allPassed = list_all tr_isCorrect results;
          updatedAnswer = answer
            \<lparr> testResults := Some results,
              totalPassed := Some (length (filter tr_isCorrect results)),
              totalCases := Some (length results),
              status := Some (if allPassed then answered else not_answered),
              marks := Some (if allPassed then 100 else 0) \<rparr>
      in state\<lparr>c_answers := map_set (c_answers state) qid updatedAnswer\<rparr>)"
| "codingReducer state C_TICK_TIMER =
     (if c_timeLeft state \<le> 1 then state\<lparr>c_timeLeft := 0, c_examFinished := True\<rparr>
      else state\<lparr>c_timeLeft := c_timeLeft state - 1\<rparr>)"
| "codingReducer state C_FINISH_EXAM = state\<lparr>c_examFinished := True, c_timeLeft := 0\<rparr>"

definition coding_done :: CodingState where
  "coding_done =
     \<lparr> c_timeLeft = 0, c_examStarted = True, c_examFinished = True,
       c_answers = [(''q1'', (blank_answer ''q1'')\<lparr>sourceCode := Some ''print(1)''\<rparr>)],
       c_language = python \<rparr>"

section \<open>Full-screen enforcement (the hook useFullscreenEnforcement)\<close>

text \<open>
  The hook's state variables are a record. The local storage slot
  \<^verbatim>\<open>fullscreenExitCount_<examId>\<close> holds the decimal string of a count, written only by
  \<^verbatim>\<open>newCount.toString()\<close> and read back by \<^verbatim>\<open>parseInt(.. || '0', 10)\<close>; the slot is
  modelled by the integer it encodes, an empty slot reading as 0. What the effect does
  beyond its state is a list of outputs, in the order of the source.
\<close>

definition MAX_EXITS :: int where
  "MAX_EXITS = 5"

record Enforcement =
  isFullscreen :: bool
  isPageVisible :: bool
  exitCount :: int
  warningIssued :: bool
  countdown :: "int option"

datatype HookOutput =
    ToastAutoSubmitting
  | ToastWarning int int     \<comment> \<open>\<^verbatim>\<open>Warning newCount/MAX_EXITS\<close>, chances remaining\<close>
  | OnAutoSubmit

type_synonym storage = "string \<Rightarrow> int option"

definition storageKey :: "string \<Rightarrow> string" where
  "storageKey examId = ''fullscreenExitCount_'' @ examId"

definition stored_count :: "storage \<Rightarrow> string \<Rightarrow> int" where
  "stored_count ls examId = (case ls (storageKey examId) of None \<Rightarrow> 0 | Some n \<Rightarrow> n)"

text \<open>The effect of lines 78 to 115, run after a render with the given hook state.\<close>

definition enforce ::
  "string \<Rightarrow> bool \<Rightarrow> bool \<Rightarrow> Enforcement \<times> storage \<Rightarrow> (Enforcement \<times> storage) \<times> HookOutput list" where
  "enforce examId started finished hs =
     (let h = fst hs; ls = snd hs in
      if \<not> started \<or> finished then ((h\<lparr>countdown := None\<rparr>, ls), [])
      else if isFullscreen h \<and> isPageVisible h
      then ((h\<lparr>warningIssued := False, countdown := None\<rparr>, ls), [])
      else if \<not> warningIssued h
      then (let newCount = exitCount h + 1;
                h' = h\<lparr>exitCount := newCount, warningIssued := True, countdown := Some 30\<rparr>;
                ls' = ls(storageKey examId \<mapsto> newCount)
            in if newCount > MAX_EXITS
               then ((h', ls'), [ToastAutoSubmitting, OnAutoSubmit])
               else ((h', ls'), [ToastWarning newCount (MAX_EXITS - newCount)]))
      else ((h, ls), []))"

text \<open>
  The listeners of \<^verbatim>\<open>fullscreenchange\<close> and \<^verbatim>\<open>visibilitychange\<close> store what the
  document reports.
\<close>

definition signals :: "bool \<Rightarrow> bool \<Rightarrow> Enforcement \<times> storage \<Rightarrow> Enforcement \<times> storage" where
  "signals fullscreen visible hs =
     ((fst hs)\<lparr>isFullscreen := fullscreen, isPageVisible := visible\<rparr>, snd hs)"

text \<open>The countdown effect of lines 43 to 53; the second case is the timeout after one second.\<close>

definition countdown_tick :: "Enforcement \<Rightarrow> Enforcement \<times> HookOutput list" where
  "countdown_tick h =
     (case countdown h of
        None \<Rightarrow> (h, [])
      | Some c \<Rightarrow> (if c \<le> 0 then (h, [OnAutoSubmit]) else (h\<lparr>countdown := Some (c - 1)\<rparr>, [])))"

text \<open>The initial values of the hook's state variables (lines 17 to 26).\<close>

definition initial_hook :: "storage \<Rightarrow> string \<Rightarrow> Enforcement" where
  "initial_hook ls examId =
     \<lparr> isFullscreen = True, isPageVisible = True, exitCount = stored_count ls examId,
       warningIssued = False, countdown = None \<rparr>"

text \<open>
  The hook of exam \<open>e1\<close> mounted with a stored count of \<open>n\<close>, and the same after the
  document has left full screen.
\<close>

definition secure_hook :: "int \<Rightarrow> Enforcement" where
  "secure_hook n = initial_hook [storageKey ''e1'' \<mapsto> n] ''e1''"

definition left_fullscreen :: "int \<Rightarrow> Enforcement \<times> storage" where
  "left_fullscreen n = signals False True (secure_hook n, [storageKey ''e1'' \<mapsto> n])"

section \<open>The code execution flow (execute-code-flow.ts)\<close>

text \<open>
  The Piston service is outside the repository. One call of \<^verbatim>\<open>fetch\<close> and the reading
  of its response end in one of three ways: something inside the \<^verbatim>\<open>try\<close> block throws
  (\<^verbatim>\<open>fetch\<close>, \<^verbatim>\<open>response.text()\<close>, \<^verbatim>\<open>response.json()\<close> or the access to
  \<^verbatim>\<open>result.run\<close>), with the thrown value's \<^verbatim>\<open>message\<close> if it has one; the response is
  not \<^verbatim>\<open>ok\<close>, with its status text and body; or the run's \<^verbatim>\<open>output\<close> and
  \<^verbatim>\<open>stderr\<close> are read. The service is a parameter \<open>fetch\<close> of the call number and the
  request, so that two calls with the same request may answer differently.
\<close>

datatype PistonReply =
    Thrown "js_string option"
  | NotOk js_string js_string
  | Ran "js_string option" "js_string option"

record PistonRequest =
  pr_language :: string
  pr_content :: string
  pr_stdin :: js_string

record ExecuteCodeInput =
  in_language :: Language
  in_sourceCode :: string
  in_testCases :: "TestCase list"

record ExecuteCodeOutput =
  out_results :: "TestResult list"
  out_totalPassed :: nat
  out_totalCases :: nat

definition languageMap :: "Language \<Rightarrow> string" where
  "languageMap l =
     (case l of javascript \<Rightarrow> ''javascript'' | python \<Rightarrow> ''python''
              | java \<Rightarrow> ''java'' | cpp \<Rightarrow> ''c++'')"

text \<open>\<^verbatim>\<open>x || d\<close> for a string that may be absent: the empty string is falsy.\<close>

definition or_else :: "js_string option \<Rightarrow> js_string \<Rightarrow> js_string" where
  "or_else x d = (case x of None \<Rightarrow> d | Some s \<Rightarrow> (if s = [] then d else s))"

text \<open>\<^verbatim>\<open>x || undefined\<close>.\<close>

definition or_undefined :: "js_string option \<Rightarrow> js_string option" where
  "or_undefined x = (case x of None \<Rightarrow> None | Some s \<Rightarrow> (if s = [] then None else Some s))"

fun run_cases ::
  "(nat \<Rightarrow> PistonRequest \<Rightarrow> PistonReply) \<Rightarrow> string \<Rightarrow> string \<Rightarrow> nat \<Rightarrow> TestCase list \<Rightarrow>
     TestResult list \<Rightarrow> nat \<Rightarrow> TestResult list \<times> nat" where
  "run_cases fetch executionLanguage src n [] results passed = (results, passed)"
| "run_cases fetch executionLanguage src n (testCase # rest) results passed =
     (case fetch n \<lparr> pr_language = executionLanguage, pr_content = src,
                      pr_stdin = tc_input testCase \<rparr> of
        NotOk statusText errorBody \<Rightarrow>
          (let errorMessage = ascii ''API Error: '' @ statusText @
                              (if errorBody \<noteq> [] then ascii '' - '' @ errorBody else [])
           in run_cases fetch executionLanguage src (Suc n) rest
                (results @ [\<lparr> tr_input = tc_input testCase,
                               tr_expectedOutput = tc_expectedOutput testCase,
                               tr_actualOutput = errorMessage,
                               tr_isCorrect = False,
                               tr_error = Some errorMessage \<rparr>])
                passed)
      | Ran output stderr \<Rightarrow>
          (let actualOutput = trim (or_else output []);
               isCorrect = (actualOutput = trim (tc_expectedOutput testCase))
           in run_cases fetch executionLanguage src (Suc n) rest
                (results @ [\<lparr> tr_input = tc_input testCase,
                               tr_expectedOutput = tc_expectedOutput testCase,
                               tr_actualOutput = actualOutput,
                               tr_isCorrect = isCorrect,
                               tr_error = or_undefined stderr \<rparr>])
                (if isCorrect then passed + 1 else passed))
      | Thrown message \<Rightarrow>
          run_cases fetch executionLanguage src (Suc n) rest
            (results @ [\<lparr> tr_input = tc_input testCase,
                           tr_expectedOutput = tc_expectedOutput testCase,
                           tr_actualOutput = ascii ''Execution Failed'',
                           tr_isCorrect = False,
                           tr_error = Some (or_else message (ascii ''An unknown error occurred.'')) \<rparr>])
            passed)"

definition executeCodeFlow ::
  "(nat \<Rightarrow> PistonRequest \<Rightarrow> PistonReply) \<Rightarrow> ExecuteCodeInput \<Rightarrow> ExecuteCodeOutput" where
  "executeCodeFlow fetch input =
     (let executionLanguage = languageMap (in_language input);
          (results, passed) =
             run_cases fetch executionLanguage (in_sourceCode input) 0 (in_testCases input) [] 0
      in \<lparr> out_results = results, out_totalPassed = passed,
           out_totalCases = length (in_testCases input) \<rparr>)"

text \<open>The request sent for the test case at position \<open>i\<close>.\<close>

definition request_of :: "ExecuteCodeInput \<Rightarrow> nat \<Rightarrow> PistonRequest" where
  "request_of input i =
     \<lparr> pr_language = languageMap (in_language input), pr_content = in_sourceCode input,
       pr_stdin = tc_input (in_testCases input ! i) \<rparr>"

definition is_failure :: "PistonReply \<Rightarrow> bool" where
  "is_failure r = (case r of Ran _ _ \<Rightarrow> False | _ \<Rightarrow> True)"

text \<open>A service that is unreachable at the second call and refuses the third.\<close>

definition flaky :: "nat \<Rightarrow> PistonRequest \<Rightarrow> PistonReply" where
  "flaky n r = (if n = 0 then Ran (Some (ascii ''4 '')) None
                else if n = 1 then Thrown None
                else NotOk (ascii ''Too Many Requests'') [])"

definition three_cases :: ExecuteCodeInput where
  "three_cases =
     \<lparr> in_language = cpp, in_sourceCode = ''main'',
       in_testCases =
         [\<lparr> tc_id = None, tc_input = ascii ''2 2'', tc_expectedOutput = ascii ''4'' \<rparr>,
          \<lparr> tc_id = None, tc_input = ascii ''1 2'', tc_expectedOutput = ascii ''3'' \<rparr>,
          \<lparr> tc_id = None, tc_input = ascii ''0 0'', tc_expectedOutput = ascii ''0'' \<rparr>] \<rparr>"

section \<open>Submission (handleSubmitExam in ExamInterface.tsx)\<close>

datatype ExamType = mcq | coding | long_answer

datatype StudentExamStatus = completed | graded | suspicious | in_progress

record Question =
  q_id :: string
  q_text :: string
  q_options :: "string list option"
  q_correctOption :: "int option"
  q_testCases :: "TestCase list option"

text \<open>\<open>questions = None\<close> is a document whose \<^verbatim>\<open>questions\<close> is not an array.\<close>

record Exam =
  title :: string
  examType :: ExamType
  questions :: "Question list option"

record AutoSubmitDetails =
  d_autoSubmitted :: bool
  d_exitCount :: int

text \<open>The written document; \<^verbatim>\<open>timeFinished\<close> is the server's time stamp and is left out.\<close>

record StudentExam =
  studentId :: string
  examId :: string
  examTitle :: string
  sub_answers :: "StudentAnswer list"
  score :: rat
  sub_status :: StudentExamStatus
  sub_autoSubmitted :: "bool option"
  sub_exitCount :: "int option"
  sub_language :: "Language option"

text \<open>
  What one call of the handler does, in order. \<open>SetDocument\<close> is a call of
  \<^verbatim>\<open>setDocumentNonBlocking(ref, payload, { merge: true })\<close> that returned; its source is
  not in the repository, so whether it returns or throws is the parameter \<open>persist\<close>.
\<close>

datatype Effect =
    SetIsSubmitting bool
  | Toast string
  | SetDocument string StudentExam
  | DispatchFinishExam
  | RouterPush string
  | ConsoleError string

text \<open>
  The callback of \<^verbatim>\<open>examData.questions.map\<close>, which also adds to \<^verbatim>\<open>totalScore\<close>: the
  function returns the answers and the total reached. The marks are 0 or 100 and the
  total is their integer sum, which the additions of doubles give exactly; the score is
  the quotient of the total by the number of questions, a division of doubles.
\<close>

fun grade_answers ::
  "ExamType \<Rightarrow> State \<Rightarrow> Question list \<Rightarrow> int \<Rightarrow> StudentAnswer list \<times> int" where
  "grade_answers ty state [] totalScore = ([], totalScore)"
| "grade_answers ty state (q # qs) totalScore =
     (let answer = (case map_get (answers state) (q_id q) of None \<Rightarrow> NullAns | Some a \<Rightarrow> a);
          studentAnswer = (blank_answer (q_id q))
            \<lparr> questionText := Some (q_text q),
              status := Some (case map_get (statuses state) (q_id q) of
                                None \<Rightarrow> not_visited | Some st \<Rightarrow> st) \<rparr>
      in if ty = mcq
         then (let isCorrect = (case answer of
                                  NumberAns n \<Rightarrow> (case q_correctOption q of
                                                    Some c \<Rightarrow> n = c | None \<Rightarrow> False)
                                | _ \<Rightarrow> False);
                   m = (if isCorrect then 100 else 0);
                   (rest, total) = grade_answers ty state qs (totalScore + m)
               in (studentAnswer
                     \<lparr> selectedOption := Some (case answer of NumberAns n \<Rightarrow> Some n | _ \<Rightarrow> None),
                       correctOption := Some (q_correctOption q),
                       options := Some (case q_options q of None \<Rightarrow> [] | Some os \<Rightarrow> os),
                       marks := Some (of_int m) \<rparr> # rest, total))
         else (let isAnswered = (case answer of
                                   StringAns t \<Rightarrow> trim t \<noteq> [] | _ \<Rightarrow> False);
                   m = (if isAnswered then 100 else 0);
                   (rest, total) = grade_answers ty state qs (totalScore + m)
               in (studentAnswer
                     \<lparr> textAnswer := Some (case answer of StringAns t \<Rightarrow> t | _ \<Rightarrow> []),
                       marks := Some (of_int m) \<rparr> # rest, total)))"

definition studentExamSubmission ::
  "string \<Rightarrow> string \<Rightarrow> Exam \<Rightarrow> Question list \<Rightarrow> State \<Rightarrow> AutoSubmitDetails option \<Rightarrow> StudentExam" where
  "studentExamSubmission uid eid examData qs state autoSubmitDetails =
     (let (studentAnswers, totalScore) = grade_answers (examType examData) state qs 0;
          finalScore = (if length qs > 0 then ddiv (of_int totalScore) (of_nat (length qs)) else 0)
      in \<lparr> studentId = uid,
           examId = eid,
           examTitle = title examData,
           sub_answers = studentAnswers,
           score = finalScore,
           sub_status =
             (if (case autoSubmitDetails of Some d \<Rightarrow> d_autoSubmitted d | None \<Rightarrow> False)
              then suspicious
              else if examType examData = mcq then graded
              else completed),
           sub_autoSubmitted = map_option d_autoSubmitted autoSubmitDetails,
           sub_exitCount = map_option d_exitCount autoSubmitDetails,
           sub_language = None \<rparr>)"

definition docId :: "string \<Rightarrow> string \<Rightarrow> string" where
  "docId uid eid = uid @ ''_'' @ eid"

definition handleSubmitExam ::
  "(string \<Rightarrow> StudentExam \<Rightarrow> bool) \<Rightarrow> string \<Rightarrow> State option \<Rightarrow> string option \<Rightarrow> Exam option \<Rightarrow>
     bool \<Rightarrow> AutoSubmitDetails option \<Rightarrow> Effect list" where
  "handleSubmitExam persist eid state user examData isSubmitting autoSubmitDetails =
     (case state of None \<Rightarrow> [] | Some st \<Rightarrow>
     (case user of None \<Rightarrow> [] | Some uid \<Rightarrow>
     (case examData of None \<Rightarrow> [] | Some exam \<Rightarrow>
     (case questions exam of None \<Rightarrow> [] | Some qs \<Rightarrow>
        (if isSubmitting then []
         else [SetIsSubmitting True, Toast ''Submitting exam...''] @
          (let payload = studentExamSubmission uid eid exam qs st autoSubmitDetails
           in (if persist (docId uid eid) payload
               then [SetDocument (docId uid eid) payload, DispatchFinishExam,
                     Toast ''Exam Submitted!'', RouterPush ''/student/dashboard'']
               else [ConsoleError ''Submission failed'', Toast ''Submission Failed'',
                     SetIsSubmitting False])))))))"

text \<open>
  \<^verbatim>\<open>handleAutoSubmit\<close> reads the stored exit count; the dialog's button passes
  \<^verbatim>\<open>{ autoSubmitted: false, exitCount }\<close> with the hook's count.
\<close>

definition handleAutoSubmit ::
  "storage \<Rightarrow> (string \<Rightarrow> StudentExam \<Rightarrow> bool) \<Rightarrow> string \<Rightarrow> State option \<Rightarrow> string option \<Rightarrow>
     Exam option \<Rightarrow> bool \<Rightarrow> Effect list" where
  "handleAutoSubmit ls persist eid state user examData isSubmitting =
     handleSubmitExam persist eid state user examData isSubmitting
       (Some \<lparr> d_autoSubmitted = True, d_exitCount = stored_count ls eid \<rparr>)"

definition submitButton ::
  "int \<Rightarrow> (string \<Rightarrow> StudentExam \<Rightarrow> bool) \<Rightarrow> string \<Rightarrow> State option \<Rightarrow> string option \<Rightarrow>
     Exam option \<Rightarrow> bool \<Rightarrow> Effect list" where
  "submitButton hookExitCount persist eid state user examData isSubmitting =
     handleSubmitExam persist eid state user examData isSubmitting
       (Some \<lparr> d_autoSubmitted = False, d_exitCount = hookExitCount \<rparr>)"

text \<open>The documents written by a list of effects.\<close>

fun written :: "Effect list \<Rightarrow> StudentExam list" where
  "written [] = []"
| "written (SetDocument d p # es) = p # written es"
| "written (e # es) = written es"

section \<open>Submission of a coding exam (handleSubmitExam in CodingExamInterface.tsx)\<close>

text \<open>
  \<^verbatim>\<open>executeCode\<close> is a server action called from the client: the call made for the
  question at position \<open>i\<close> either resolves with an output or is rejected, \<open>exec i input\<close>
  being \<open>Inr\<close> of the output or \<open>Inl\<close> of the error. The handler awaits the calls one
  after the other, question by question.
\<close>

text \<open>\<^verbatim>\<open>!answer || !answer.sourceCode\<close> fails: the answer and its non-empty source.\<close>

definition submittable :: "StudentAnswer option \<Rightarrow> (StudentAnswer \<times> string) option" where
  "submittable a =
     (case a of
        None \<Rightarrow> None
      | Some answer \<Rightarrow>
          (case sourceCode answer of
             None \<Rightarrow> None
           | Some src \<Rightarrow> (if src = [] then None else Some (answer, src))))"

definition testCases_of :: "Question \<Rightarrow> TestCase list" where
  "testCases_of question = (case q_testCases question of None \<Rightarrow> [] | Some tcs \<Rightarrow> tcs)"

text \<open>
  The result built in the \<^verbatim>\<open>catch\<close> block for one test case; its extra \<^verbatim>\<open>id\<close>, a fresh
  uuid outside the interface \<^verbatim>\<open>TestResult\<close>, is left out.
\<close>

definition failed_result :: "TestCase \<Rightarrow> TestResult" where
  "failed_result tc =
     \<lparr> tr_input = tc_input tc,
       tr_expectedOutput = tc_expectedOutput tc,
       tr_actualOutput = ascii ''Execution Error on Submit'',
       tr_isCorrect = False,
       tr_error = Some (ascii ''Submission execution failed'') \<rparr>"

definition marksForQuestion :: "ExecuteCodeOutput \<Rightarrow> rat" where
  "marksForQuestion result =
     (if out_totalCases result > 0
      then dmul (ddiv (of_nat (out_totalPassed result)) (of_nat (out_totalCases result))) 100
      else 0)"

fun grade_loop ::
  "(nat \<Rightarrow> ExecuteCodeInput \<Rightarrow> string + ExecuteCodeOutput) \<Rightarrow> CodingState \<Rightarrow> nat \<Rightarrow>
     Question list \<Rightarrow> StudentAnswer list \<Rightarrow> rat \<Rightarrow> StudentAnswer list \<times> rat" where
  "grade_loop exec state i [] finalAnswers totalMarks = (finalAnswers, totalMarks)"
| "grade_loop exec state i (question # rest) finalAnswers totalMarks =
     (case submittable (map_get (c_answers state) (q_id question)) of
        None \<Rightarrow>
          grade_loop exec state (Suc i) rest
            (finalAnswers @
               [(blank_answer (q_id question))
                  \<lparr> questionText := Some (q_text question),
                    testResults := Some [],
                    status := Some not_answered,
                    marks := Some 0,
                    sourceCode := Some [] \<rparr>])
            totalMarks
      | Some (answer, src) \<Rightarrow>
          (case exec i \<lparr> in_language = c_language state, in_sourceCode = src,
                          in_testCases = testCases_of question \<rparr> of
             Inr result \<Rightarrow>
               grade_loop exec state (Suc i) rest
                 (finalAnswers @
                    [answer
                       \<lparr> questionId := q_id question,
                         questionText := Some (q_text question),
                         testResults := Some (out_results result),
                         totalPassed := Some (out_totalPassed result),
                         totalCases := Some (out_totalCases result),
                         marks := Some (marksForQuestion result),
                         status := Some (if out_totalPassed result = out_totalCases result
                                         then answered else not_answered) \<rparr>])
                 (dadd totalMarks (marksForQuestion result))
           | Inl e \<Rightarrow>
               grade_loop exec state (Suc i) rest
                 (finalAnswers @
                    [answer
                       \<lparr> questionId := q_id question,
                         questionText := Some (q_text question),
                         testResults := Some (map failed_result (testCases_of question)),
                         status := Some not_answered,
                         marks := Some 0 \<rparr>])
                 totalMarks))"

definition submissionPayload ::
  "(nat \<Rightarrow> ExecuteCodeInput \<Rightarrow> string + ExecuteCodeOutput) \<Rightarrow> string \<Rightarrow> string \<Rightarrow> Exam \<Rightarrow>
     Question list \<Rightarrow> CodingState \<Rightarrow> AutoSubmitDetails option \<Rightarrow> StudentExam" where
  "submissionPayload exec uid eid examData shuffledQuestions state autoSubmitDetails =
     (let (finalAnswers, totalMarks) = grade_loop exec state 0 shuffledQuestions [] 0;
          overallScore = (if length shuffledQuestions > 0
                          then ddiv totalMarks (of_nat (length shuffledQuestions)) else 0)
      in \<lparr> studentId = uid,
           examId = eid,
           examTitle = title examData,
           sub_answers = finalAnswers,
           score = overallScore,
           sub_status = (case autoSubmitDetails of Some d \<Rightarrow> suspicious | None \<Rightarrow> graded),
           sub_autoSubmitted = map_option d_autoSubmitted autoSubmitDetails,
           sub_exitCount = map_option d_exitCount autoSubmitDetails,
           sub_language = Some (c_language state) \<rparr>)"

text \<open>
  The handler of the coding interface; the calls of \<^verbatim>\<open>executeCode\<close> lie between the
  first toast and the write.
\<close>

definition codingHandleSubmitExam ::
  "(nat \<Rightarrow> ExecuteCodeInput \<Rightarrow> string + ExecuteCodeOutput) \<Rightarrow> (string \<Rightarrow> StudentExam \<Rightarrow> bool) \<Rightarrow>
     string \<Rightarrow> Question list \<Rightarrow> CodingState option \<Rightarrow> string option \<Rightarrow> Exam option \<Rightarrow>
     bool \<Rightarrow> AutoSubmitDetails option \<Rightarrow> Effect list" where
  "codingHandleSubmitExam exec persist eid shuffledQuestions state user examData
       isSubmitting autoSubmitDetails =
     (case state of None \<Rightarrow> [] | Some st \<Rightarrow>
     (case user of None \<Rightarrow> [] | Some uid \<Rightarrow>
     (case examData of None \<Rightarrow> [] | Some exam \<Rightarrow>
        (if isSubmitting then []
         else [SetIsSubmitting True, Toast ''Submitting exam...''] @
          (let payload = submissionPayload exec uid eid exam shuffledQuestions st autoSubmitDetails
           in (if persist (docId uid eid) payload
               then [SetDocument (docId uid eid) payload, DispatchFinishExam,
                     Toast ''Exam Submitted!'', RouterPush ''/student/dashboard'']
               else [ConsoleError ''Submission failed'', Toast ''Submission Failed'',
                     SetIsSubmitting False]))))))"

definition codingHandleAutoSubmit ::
  "storage \<Rightarrow> (nat \<Rightarrow> ExecuteCodeInput \<Rightarrow> string + ExecuteCodeOutput) \<Rightarrow>
     (string \<Rightarrow> StudentExam \<Rightarrow> bool) \<Rightarrow> string \<Rightarrow> Question list \<Rightarrow> CodingState option \<Rightarrow>
     string option \<Rightarrow> Exam option \<Rightarrow> bool \<Rightarrow> Effect list" where
  "codingHandleAutoSubmit ls exec persist eid shuffledQuestions state user examData isSubmitting =
     codingHandleSubmitExam exec persist eid shuffledQuestions state user examData isSubmitting
       (Some \<lparr> d_autoSubmitted = True, d_exitCount = stored_count ls eid \<rparr>)"

section \<open>The triggers served by one render\<close>




section \<open>Notions of the specification and sample data\<close>




text \<open>A quiz of three questions with two correct selections, and an essay exam.\<close>

definition quiz_question :: "string \<Rightarrow> int \<Rightarrow> Question" where
  "quiz_question qid c =
     \<lparr> q_id = qid, q_text = ''?'', q_options = Some [''a'', ''b'', ''c''],
       q_correctOption = Some c, q_testCases = None \<rparr>"

definition quiz_questions :: "Question list" where
  "quiz_questions = [quiz_question ''q1'' 1, quiz_question ''q2'' 2, quiz_question ''q3'' 0]"

definition quiz :: Exam where
  "quiz = \<lparr> title = ''Quiz'', examType = mcq, questions = Some quiz_questions \<rparr>"

definition quiz_session :: State where
  "quiz_session =
     session3\<lparr>answers := [(''q1'', NumberAns 1), (''q2'', NumberAns 2), (''q3'', NumberAns 1)]\<rparr>"

definition essay :: Exam where
  "essay = \<lparr> title = ''Essay'', examType = long_answer, questions = Some quiz_questions \<rparr>"

definition essay_session :: State where
  "essay_session =
     session3\<lparr>answers := [(''q1'', StringAns (ascii ''because'')),
                          (''q2'', StringAns (ascii ''  '')),
                          (''q3'', StringAns [0xA0, 0x2028])]\<rparr>"

definition persist_ok :: "string \<Rightarrow> StudentExam \<Rightarrow> bool" where
  "persist_ok d p = True"

text \<open>
  A coding exam of three questions: the first is solved, the call for the second is
  rejected, the third has an empty editor. The service prints 4 for every program.
\<close>

definition prints4 :: "nat \<Rightarrow> PistonRequest \<Rightarrow> PistonReply" where
  "prints4 n r = Ran (Some (ascii ''4'')) None"

definition second_call_fails :: "nat \<Rightarrow> ExecuteCodeInput \<Rightarrow> string + ExecuteCodeOutput" where
  "second_call_fails i input =
     (if i = 1 then Inl ''Failed to fetch'' else Inr (executeCodeFlow prints4 input))"

definition coding_question :: "string \<Rightarrow> Question" where
  "coding_question qid =
     \<lparr> q_id = qid, q_text = ''add'', q_options = None, q_correctOption = None,
       q_testCases = Some [\<lparr> tc_id = Some ''t1'', tc_input = ascii ''2 2'',
                             tc_expectedOutput = ascii ''4'' \<rparr>] \<rparr>"

definition coding_questions :: "Question list" where
  "coding_questions = [coding_question ''q1'', coding_question ''q2'', coding_question ''q3'']"

definition coding_exam :: Exam where
  "coding_exam = \<lparr> title = ''Coding'', examType = coding, questions = Some coding_questions \<rparr>"

definition coding_session :: CodingState where
  "coding_session =
     \<lparr> c_timeLeft = 60, c_examStarted = True, c_examFinished = False,
       c_answers = [(''q1'', (blank_answer ''q1'')\<lparr>sourceCode := Some ''print(4)''\<rparr>),
                    (''q2'', (blank_answer ''q2'')\<lparr>sourceCode := Some ''print(2+2)''\<rparr>),
                    (''q3'', (blank_answer ''q3'')\<lparr>sourceCode := Some []\<rparr>)],
       c_language = python \<rparr>"

text \<open>
  A question whose only test expects no output, an editor left empty, and a service on
  which the empty program prints nothing.
\<close>

definition silent :: "nat \<Rightarrow> PistonRequest \<Rightarrow> PistonReply" where
  "silent n r = Ran None None"

definition exec_silent :: "nat \<Rightarrow> ExecuteCodeInput \<Rightarrow> string + ExecuteCodeOutput" where
  "exec_silent i input = Inr (executeCodeFlow silent input)"

definition quiet_question :: Question where
  "quiet_question =
     \<lparr> q_id = ''q1'', q_text = ''do nothing'', q_options = None, q_correctOption = None,
       q_testCases = Some [\<lparr> tc_id = Some ''t1'', tc_input = [], tc_expectedOutput = [] \<rparr>] \<rparr>"

definition untouched_session :: CodingState where
  "untouched_session =
     \<lparr> c_timeLeft = 60, c_examStarted = True, c_examFinished = False,
       c_answers = [(''q1'', (blank_answer ''q1'')\<lparr>sourceCode := Some []\<rparr>)],
       c_language = python \<rparr>"

text \<open>
  A question with the three test cases of \<open>three_cases\<close>, answered in C++, and a service
  on which the program passes the first of them only.
\<close>

definition partial_question :: Question where
  "partial_question =
     \<lparr> q_id = ''q1'', q_text = ''add'', q_options = None, q_correctOption = None,
       q_testCases = Some (in_testCases three_cases) \<rparr>"

definition partial_session :: CodingState where
  "partial_session =
     \<lparr> c_timeLeft = 60, c_examStarted = True, c_examFinished = False,
       c_answers = [(''q1'', (blank_answer ''q1'')\<lparr>sourceCode := Some ''main''\<rparr>)],
       c_language = cpp \<rparr>"

definition exec_flaky :: "nat \<Rightarrow> ExecuteCodeInput \<Rightarrow> string + ExecuteCodeOutput" where
  "exec_flaky i input = Inr (executeCodeFlow flaky input)"

section \<open>Facts about the map operations\<close>

lemma map_get_map_set:
  "map_get (map_set m k v) k' = (if k' = k then Some v else map_get m k')"
  by (induction m) auto

lemma map_get_visit_marked:
  "map_get m q = Some marked_for_review \<Longrightarrow> map_get (visit m i) q = Some marked_for_review"
  by (auto simp: visit_def map_get_map_set split: option.splits)

section \<open>The reducers\<close>

text \<open>
  C1. The claim that a finished session ignores every further action fails: the
  reducers never read \<open>examFinished\<close>, and \<^verbatim>\<open>ANSWER\<close> on a finished session stores the
  answer.
\<close>

theorem finished_session_still_answers:
  "examFinished finished3 \<and>
   examReducer finished3 (ANSWER (Mcq ''q1'' 0)) \<noteq> finished3 \<and>
   answers (examReducer finished3 (ANSWER (Mcq ''q1'' 0))) = [(''q1'', NumberAns 0)] \<and>
   map_get (statuses (examReducer finished3 (ANSWER (Mcq ''q1'' 0)))) ''q1'' = Some answered"
  by (simp add: finished3_def session3_def payload_questionId_def payload_value_def)

text \<open>
  C1, as amended. Both reducers treat a finished session as a running one: for every
  action but \<^verbatim>\<open>INITIALIZE\<close> the result on the finished state is the result on the state
  with the flag set afterwards, so the flag, once true, stays true; and \<^verbatim>\<open>TICK_TIMER\<close>
  and \<^verbatim>\<open>FINISH_EXAM\<close> return a finished state whose \<open>timeLeft\<close> is 0 unchanged.
\<close>

theorem finished_flag_not_consulted:
  "((\<forall>p. a \<noteq> INITIALIZE p) \<longrightarrow>
      examReducer (s\<lparr>examFinished := True\<rparr>) a = (examReducer s a)\<lparr>examFinished := True\<rparr>) \<and>
   (examFinished s \<and> (\<forall>p. a \<noteq> INITIALIZE p) \<longrightarrow> examFinished (examReducer s a)) \<and>
   (examFinished s \<and> timeLeft s = 0 \<longrightarrow>
      examReducer s TICK_TIMER = s \<and> examReducer s FINISH_EXAM = s) \<and>
   ((\<forall>p. ca \<noteq> C_INITIALIZE p) \<longrightarrow>
      codingReducer (cs\<lparr>c_examFinished := True\<rparr>) ca =
        (codingReducer cs ca)\<lparr>c_examFinished := True\<rparr>) \<and>
   (c_examFinished cs \<and> (\<forall>p. ca \<noteq> C_INITIALIZE p) \<longrightarrow> c_examFinished (codingReducer cs ca)) \<and>
   (c_examFinished cs \<and> c_timeLeft cs = 0 \<longrightarrow>
      codingReducer cs C_TICK_TIMER = cs \<and> codingReducer cs C_FINISH_EXAM = cs)"
  by (cases a; cases ca) (auto simp: Let_def)

theorem finished_flag_not_consulted_witness:
  "examFinished finished3 \<and> timeLeft finished3 = 0 \<and>
   examFinished (examReducer finished3 (ANSWER (Mcq ''q1'' 0))) \<and>
   examReducer finished3 TICK_TIMER = finished3 \<and>
   examReducer finished3 FINISH_EXAM = finished3 \<and>
   c_examFinished coding_done \<and> c_timeLeft coding_done = 0 \<and>
   c_examFinished (codingReducer coding_done (UPDATE_CODE ''q1'' ''print(2)'')) \<and>
   codingReducer coding_done C_TICK_TIMER = coding_done \<and>
   codingReducer coding_done C_FINISH_EXAM = coding_done"
proof -
  have fin: "examFinished finished3 \<and> timeLeft finished3 = 0"
    by (simp add: finished3_def)
  have cfin: "c_examFinished coding_done \<and> c_timeLeft coding_done = 0"
    by (simp add: coding_done_def)
  have act: "\<forall>p. ANSWER (Mcq ''q1'' 0) \<noteq> INITIALIZE p"
    and cact: "\<forall>p. UPDATE_CODE ''q1'' ''print(2)'' \<noteq> C_INITIALIZE p"
    by simp_all
  show ?thesis
    using fin cfin act cact
      finished_flag_not_consulted[where s = finished3 and a = "ANSWER (Mcq ''q1'' 0)"
        and cs = coding_done and ca = "UPDATE_CODE ''q1'' ''print(2)''"]
    by blast
qed

text \<open>
  C6. The claim that every action keeps \<open>0 \<le> currentQuestionIndex < totalQuestions\<close>
  fails for \<^verbatim>\<open>JUMP_TO_QUESTION\<close>, which stores its payload as it is.
\<close>

theorem jump_out_of_range_breaks_index:
  "index_ok session3 \<and> 1 \<le> totalQuestions session3 \<and>
   currentQuestionIndex (examReducer session3 (JUMP_TO_QUESTION 7)) = 7 \<and>
   \<not> index_ok (examReducer session3 (JUMP_TO_QUESTION 7))"
  by (simp add: session3_def index_ok_def)

text \<open>
  C6, as amended. The invariant is kept by every action whose payload respects it:
  \<^verbatim>\<open>JUMP_TO_QUESTION\<close> with a target inside \<open>[0, totalQuestions)\<close>, which is what the
  question palette dispatches, \<^verbatim>\<open>INITIALIZE\<close> with a state that satisfies it, and every
  other action; none but \<^verbatim>\<open>INITIALIZE\<close> changes \<open>totalQuestions\<close>.
\<close>

theorem index_invariant_preserved:
  "index_ok s \<Longrightarrow>
   (case a of INITIALIZE p \<Rightarrow> index_ok p
            | JUMP_TO_QUESTION i \<Rightarrow> 0 \<le> i \<and> i < totalQuestions s
            | _ \<Rightarrow> True) \<Longrightarrow>
   index_ok (examReducer s a) \<and>
   ((\<forall>p. a \<noteq> INITIALIZE p) \<longrightarrow> totalQuestions (examReducer s a) = totalQuestions s)"
  by (cases a) (auto simp: index_ok_def Let_def)

theorem index_invariant_preserved_witness:
  "index_ok session3 \<and> (0::int) \<le> 1 \<and> 1 < totalQuestions session3 \<and>
   index_ok (examReducer session3 (JUMP_TO_QUESTION 1)) \<and>
   index_ok (examReducer session3 NEXT_QUESTION) \<and>
   index_ok (examReducer session3 PREV_QUESTION)"
proof -
  have ok: "index_ok session3" and tot: "totalQuestions session3 = 3"
    by (simp_all add: session3_def index_ok_def)
  show ?thesis
    using ok tot
      index_invariant_preserved[OF ok, of "JUMP_TO_QUESTION 1"]
      index_invariant_preserved[OF ok, of NEXT_QUESTION]
      index_invariant_preserved[OF ok, of PREV_QUESTION]
    by simp
qed

text \<open>
  C7. \<^verbatim>\<open>PREV_QUESTION\<close> moves the index and leaves the statuses alone. In \<open>session3\<close>,
  reached by starting the exam and jumping to the third question, the second question
  has not been visited; going back onto it leaves its status \<^verbatim>\<open>not-visited\<close>, where
  \<^verbatim>\<open>NEXT_QUESTION\<close> onto the same question sets \<^verbatim>\<open>not-answered\<close>.
\<close>

theorem prev_question_skips_visit:
  "examReducer (examReducer fresh3 START_EXAM) (JUMP_TO_QUESTION 2) = session3 \<and>
   examReducer session3 PREV_QUESTION = session3\<lparr>currentQuestionIndex := 1\<rparr> \<and>
   key_at (statuses session3) 1 = Some ''q2'' \<and>
   map_get (statuses session3) ''q2'' = Some not_visited \<and>
   map_get (statuses (examReducer session3 PREV_QUESTION)) ''q2'' = Some not_visited \<and>
   map_get (statuses (examReducer (session3\<lparr>currentQuestionIndex := 0\<rparr>) NEXT_QUESTION)) ''q2''
     = Some not_answered"
  by (simp add: fresh3_def session3_def visit_def key_at_def)

text \<open>
  C8. The review mark is sticky. For a question \<open>q\<close> marked for review: \<^verbatim>\<open>ANSWER\<close> for
  \<open>q\<close> stores the selected option, or the text, and keeps the mark; \<^verbatim>\<open>CLEAR_ANSWER\<close>
  stores \<^verbatim>\<open>null\<close> and keeps the mark; \<^verbatim>\<open>TOGGLE_MARK_FOR_REVIEW\<close> sets \<^verbatim>\<open>answered\<close>
  if a number or a text is stored for \<open>q\<close> and \<^verbatim>\<open>not-answered\<close> if nothing or \<^verbatim>\<open>null\<close>
  is stored; every other action of the session keeps the mark, the reset \<^verbatim>\<open>INITIALIZE\<close>
  installing the statuses of its payload. For a question that is not marked, the toggle
  sets the mark.
\<close>

theorem review_mark_sticky:
  "(map_get (statuses s) q = Some marked_for_review \<longrightarrow>
      map_get (answers (examReducer s (ANSWER (Mcq q n)))) q = Some (NumberAns n) \<and>
      map_get (statuses (examReducer s (ANSWER (Mcq q n)))) q = Some marked_for_review \<and>
      map_get (answers (examReducer s (ANSWER (LongAnswer q t)))) q = Some (StringAns t) \<and>
      map_get (statuses (examReducer s (ANSWER (LongAnswer q t)))) q = Some marked_for_review \<and>
      map_get (answers (examReducer s (CLEAR_ANSWER q))) q = Some NullAns \<and>
      map_get (statuses (examReducer s (CLEAR_ANSWER q))) q = Some marked_for_review \<and>
      map_get (statuses (examReducer s (TOGGLE_MARK_FOR_REVIEW q))) q =
         Some (case map_get (answers s) q of
                 None \<Rightarrow> not_answered
               | Some NullAns \<Rightarrow> not_answered
               | Some (NumberAns k) \<Rightarrow> answered
               | Some (StringAns u) \<Rightarrow> answered) \<and>
      (a \<noteq> TOGGLE_MARK_FOR_REVIEW q \<and> (\<forall>p. a \<noteq> INITIALIZE p) \<longrightarrow>
         map_get (statuses (examReducer s a)) q = Some marked_for_review)) \<and>
   map_get (statuses (examReducer s (INITIALIZE p0))) q = map_get (statuses p0) q \<and>
   (map_get (statuses s) q \<noteq> Some marked_for_review \<longrightarrow>
      map_get (statuses (examReducer s (TOGGLE_MARK_FOR_REVIEW q))) q = Some marked_for_review)"
proof -
  have toggle: "(if has_answer (answers s) q then answered else not_answered) =
      (case map_get (answers s) q of
         None \<Rightarrow> not_answered
       | Some NullAns \<Rightarrow> not_answered
       | Some (NumberAns k) \<Rightarrow> answered
       | Some (StringAns u) \<Rightarrow> answered)"
    by (simp add: has_answer_def split: option.splits answer_value.splits)
  have others: "map_get (statuses (examReducer s a)) q = Some marked_for_review"
    if "map_get (statuses s) q = Some marked_for_review"
      and "a \<noteq> TOGGLE_MARK_FOR_REVIEW q" and "\<forall>p. a \<noteq> INITIALIZE p"
    using that by (cases a) (auto simp: Let_def map_get_map_set map_get_visit_marked)
  show ?thesis
    using toggle others
    by (simp add: Let_def map_get_map_set payload_questionId_def payload_value_def)
qed

theorem review_mark_sticky_witness:
  "map_get (statuses marked3) ''q2'' = Some marked_for_review \<and>
   map_get (answers marked3) ''q2'' = None \<and>
   map_get (statuses (examReducer marked3 (TOGGLE_MARK_FOR_REVIEW ''q2''))) ''q2''
     = Some not_answered \<and>
   map_get (answers (examReducer marked3 (ANSWER (Mcq ''q2'' 1)))) ''q2'' = Some (NumberAns 1) \<and>
   map_get (statuses (examReducer marked3 (ANSWER (Mcq ''q2'' 1)))) ''q2''
     = Some marked_for_review \<and>
   map_get (statuses (examReducer (examReducer marked3 (ANSWER (Mcq ''q2'' 1)))
       (TOGGLE_MARK_FOR_REVIEW ''q2''))) ''q2'' = Some answered \<and>
   map_get (answers (examReducer marked3 (ANSWER (LongAnswer ''q2'' (ascii ''why'')))))
       ''q2'' = Some (StringAns (ascii ''why'')) \<and>
   map_get (statuses (examReducer (examReducer marked3 (ANSWER (LongAnswer ''q2'' (ascii ''why''))))
       (TOGGLE_MARK_FOR_REVIEW ''q2''))) ''q2'' = Some answered \<and>
   map_get (statuses (examReducer (examReducer (examReducer marked3 (ANSWER (Mcq ''q2'' 1)))
       (CLEAR_ANSWER ''q2'')) (TOGGLE_MARK_FOR_REVIEW ''q2''))) ''q2'' = Some not_answered \<and>
   map_get (statuses (examReducer marked3 NEXT_QUESTION)) ''q2'' = Some marked_for_review \<and>
   map_get (statuses marked3) ''q1'' \<noteq> Some marked_for_review \<and>
   map_get (statuses (examReducer marked3 (TOGGLE_MARK_FOR_REVIEW ''q1''))) ''q1''
     = Some marked_for_review"
proof -
  let ?num = "examReducer marked3 (ANSWER (Mcq ''q2'' 1))"
  let ?lng = "examReducer marked3 (ANSWER (LongAnswer ''q2'' (ascii ''why'')))"
  let ?clr = "examReducer ?num (CLEAR_ANSWER ''q2'')"
  let ?implied = "\<lambda>v. (case v of
                 None \<Rightarrow> not_answered
               | Some NullAns \<Rightarrow> not_answered
               | Some (NumberAns k) \<Rightarrow> answered
               | Some (StringAns u) \<Rightarrow> answered)"
  have m: "map_get (statuses marked3) ''q2'' = Some marked_for_review"
    and n: "map_get (statuses marked3) ''q1'' \<noteq> Some marked_for_review"
    and e: "map_get (answers marked3) ''q2'' = None"
    by (simp_all add: marked3_def session3_def)
  have other: "NEXT_QUESTION \<noteq> TOGGLE_MARK_FOR_REVIEW ''q2'' \<and> (\<forall>p. NEXT_QUESTION \<noteq> INITIALIZE p)"
    by simp
  note first = review_mark_sticky[where s = marked3 and q = "''q2''" and n = 1
      and t = "ascii ''why''" and a = NEXT_QUESTION and ?p0.0 = marked3]
  have num: "map_get (answers ?num) ''q2'' = Some (NumberAns 1)"
    and num_st: "map_get (statuses ?num) ''q2'' = Some marked_for_review"
    and lng: "map_get (answers ?lng) ''q2'' = Some (StringAns (ascii ''why''))"
    and lng_st: "map_get (statuses ?lng) ''q2'' = Some marked_for_review"
    and next_st: "map_get (statuses (examReducer marked3 NEXT_QUESTION)) ''q2''
                    = Some marked_for_review"
    using first m other by blast+
  have t0: "map_get (statuses (examReducer marked3 (TOGGLE_MARK_FOR_REVIEW ''q2''))) ''q2''
      = Some not_answered"
  proof -
    from first m
    have "map_get (statuses (examReducer marked3 (TOGGLE_MARK_FOR_REVIEW ''q2''))) ''q2''
        = Some (?implied (map_get (answers marked3) ''q2''))"
      by blast
    then show ?thesis unfolding e by simp
  qed
  note on_num = review_mark_sticky[where s = ?num and q = "''q2''" and n = 1
      and t = "ascii ''why''" and a = NEXT_QUESTION and ?p0.0 = marked3]
  have t1: "map_get (statuses (examReducer ?num (TOGGLE_MARK_FOR_REVIEW ''q2''))) ''q2''
      = Some answered"
  proof -
    from on_num num_st
    have "map_get (statuses (examReducer ?num (TOGGLE_MARK_FOR_REVIEW ''q2''))) ''q2''
        = Some (?implied (map_get (answers ?num) ''q2''))"
      by blast
    then show ?thesis unfolding num by simp
  qed
  have clr: "map_get (answers ?clr) ''q2'' = Some NullAns"
    and clr_st: "map_get (statuses ?clr) ''q2'' = Some marked_for_review"
    using on_num num_st by blast+
  note on_lng = review_mark_sticky[where s = ?lng and q = "''q2''" and n = 1
      and t = "ascii ''why''" and a = NEXT_QUESTION and ?p0.0 = marked3]
  have t2: "map_get (statuses (examReducer ?lng (TOGGLE_MARK_FOR_REVIEW ''q2''))) ''q2''
      = Some answered"
  proof -
    from on_lng lng_st
    have "map_get (statuses (examReducer ?lng (TOGGLE_MARK_FOR_REVIEW ''q2''))) ''q2''
        = Some (?implied (map_get (answers ?lng) ''q2''))"
      by blast
    then show ?thesis unfolding lng by simp
  qed
  note on_clr = review_mark_sticky[where s = ?clr and q = "''q2''" and n = 1
      and t = "ascii ''why''" and a = NEXT_QUESTION and ?p0.0 = marked3]
  have t3: "map_get (statuses (examReducer ?clr (TOGGLE_MARK_FOR_REVIEW ''q2''))) ''q2''
      = Some not_answered"
  proof -
    from on_clr clr_st
    have "map_get (statuses (examReducer ?clr (TOGGLE_MARK_FOR_REVIEW ''q2''))) ''q2''
        = Some (?implied (map_get (answers ?clr) ''q2''))"
      by blast
    then show ?thesis unfolding clr by simp
  qed
  note unmarked = review_mark_sticky[where s = marked3 and q = "''q1''" and n = 1
      and t = "ascii ''why''" and a = NEXT_QUESTION and ?p0.0 = marked3]
  have t4: "map_get (statuses (examReducer marked3 (TOGGLE_MARK_FOR_REVIEW ''q1''))) ''q1''
      = Some marked_for_review"
    using unmarked n by blast
  show ?thesis
    using m e t0 num num_st t1 lng t2 t3 next_st n t4 by blast
qed

section \<open>Full-screen enforcement\<close>

text \<open>
  C2. The claim that the exit which takes the count past \<open>MAX_EXITS\<close> starts no
  countdown fails: \<^verbatim>\<open>setCountdown(30)\<close> precedes the comparison with \<open>MAX_EXITS\<close>. With
  a stored count of 5, leaving full screen gives the count 6 and \<^verbatim>\<open>onAutoSubmit\<close>, and
  the countdown is 30.
\<close>

theorem sixth_exit_starts_countdown:
  "stored_count (snd (left_fullscreen 5)) ''e1'' = 5 \<and>
   exitCount (fst (fst (enforce ''e1'' True False (left_fullscreen 5)))) = 6 \<and>
   snd (enforce ''e1'' True False (left_fullscreen 5)) = [ToastAutoSubmitting, OnAutoSubmit] \<and>
   countdown (fst (fst (enforce ''e1'' True False (left_fullscreen 5)))) = Some 30"
  by (simp add: enforce_def left_fullscreen_def secure_hook_def initial_hook_def signals_def
        MAX_EXITS_def stored_count_def Let_def)

text \<open>
  C2, as amended. While the exam runs, the effect in an insecure state with the latch
  \<open>warningIssued\<close> unset adds one to the count, stores it, sets the latch and sets the
  countdown to 30, for every exit; its output is the warning alone while the new count
  is at most \<open>MAX_EXITS\<close>, and the auto-submit notice followed by \<^verbatim>\<open>onAutoSubmit\<close>,
  without the warning, whenever the new count exceeds \<open>MAX_EXITS\<close>. With the latch set
  the effect changes nothing and outputs nothing; in a secure state it clears the latch
  and the countdown and leaves the count. So a transition from secure to insecure, with
  the effect run before and after it, adds exactly one to the count and to the stored
  count, and a further run while still insecure changes nothing.
\<close>

theorem exit_counted_once:
  "MAX_EXITS = 5 \<and>
   (started \<and> \<not> finished \<and> \<not> (isFullscreen h \<and> isPageVisible h) \<and> \<not> warningIssued h \<longrightarrow>
      exitCount (fst (fst (enforce eid started finished (h, ls)))) = exitCount h + 1 \<and>
      stored_count (snd (fst (enforce eid started finished (h, ls)))) eid = exitCount h + 1 \<and>
      warningIssued (fst (fst (enforce eid started finished (h, ls)))) \<and>
      countdown (fst (fst (enforce eid started finished (h, ls)))) = Some 30 \<and>
      snd (enforce eid started finished (h, ls)) =
        (if MAX_EXITS < exitCount h + 1 then [ToastAutoSubmitting, OnAutoSubmit]
         else [ToastWarning (exitCount h + 1) (MAX_EXITS - (exitCount h + 1))]) \<and>
      (OnAutoSubmit \<in> set (snd (enforce eid started finished (h, ls)))
         \<longleftrightarrow> MAX_EXITS < exitCount h + 1)) \<and>
   (started \<and> \<not> finished \<and> \<not> (isFullscreen h \<and> isPageVisible h) \<and> warningIssued h \<longrightarrow>
      enforce eid started finished (h, ls) = ((h, ls), [])) \<and>
   (started \<and> \<not> finished \<and> isFullscreen h \<and> isPageVisible h \<longrightarrow>
      enforce eid started finished (h, ls) =
        ((h\<lparr>warningIssued := False, countdown := None\<rparr>, ls), [])) \<and>
   (started \<and> \<not> finished \<and> isFullscreen h \<and> isPageVisible h \<and> \<not> (f \<and> v) \<longrightarrow>
      exitCount (fst (fst (enforce eid started finished
          (signals f v (fst (enforce eid started finished (h, ls))))))) = exitCount h + 1 \<and>
      stored_count (snd (fst (enforce eid started finished
          (signals f v (fst (enforce eid started finished (h, ls))))))) eid = exitCount h + 1 \<and>
      enforce eid started finished (fst (enforce eid started finished
          (signals f v (fst (enforce eid started finished (h, ls))))))
        = (fst (enforce eid started finished
             (signals f v (fst (enforce eid started finished (h, ls))))), []))"
  by (auto simp: enforce_def signals_def Let_def MAX_EXITS_def stored_count_def)

theorem exit_counted_once_witness:
  "\<not> (isFullscreen (fst (left_fullscreen 2)) \<and> isPageVisible (fst (left_fullscreen 2))) \<and>
   \<not> warningIssued (fst (left_fullscreen 2)) \<and>
   exitCount (fst (left_fullscreen 2)) = 2 \<and>
   exitCount (fst (fst (enforce ''e1'' True False (left_fullscreen 2)))) = 3 \<and>
   stored_count (snd (fst (enforce ''e1'' True False (left_fullscreen 2)))) ''e1'' = 3 \<and>
   snd (enforce ''e1'' True False (left_fullscreen 2)) = [ToastWarning 3 2] \<and>
   warningIssued (fst (fst (enforce ''e1'' True False (left_fullscreen 2)))) \<and>
   enforce ''e1'' True False (fst (enforce ''e1'' True False (left_fullscreen 2)))
     = (fst (enforce ''e1'' True False (left_fullscreen 2)), []) \<and>
   enforce ''e1'' True False (secure_hook 2, snd (left_fullscreen 2))
     = ((secure_hook 2, snd (left_fullscreen 2)), []) \<and>
   exitCount (fst (fst (enforce ''e1'' True False (signals False True
       (fst (enforce ''e1'' True False (secure_hook 2, snd (left_fullscreen 2)))))))) = 3"
proof -
  let ?h = "fst (left_fullscreen 2)" and ?ls = "snd (left_fullscreen 2)"
  let ?r = "fst (enforce ''e1'' True False (?h, ?ls))"
  have pre: "\<not> (isFullscreen ?h \<and> isPageVisible ?h)" "\<not> warningIssued ?h" "exitCount ?h = 2"
    by (simp_all add: left_fullscreen_def secure_hook_def initial_hook_def signals_def stored_count_def)
  have sec: "isFullscreen (secure_hook 2) \<and> isPageVisible (secure_hook 2)"
    "(secure_hook 2)\<lparr>warningIssued := False, countdown := None\<rparr> = secure_hook 2"
    by (simp_all add: secure_hook_def initial_hook_def signals_def stored_count_def)
  note first = exit_counted_once[where h = ?h and ls = ?ls and eid = "''e1''"
      and started = True and finished = False and f = False and v = True]
  have latch: "warningIssued (fst ?r)" and still: "\<not> (isFullscreen (fst ?r) \<and> isPageVisible (fst ?r))"
    using pre first by (simp_all add: enforce_def Let_def MAX_EXITS_def)
  note again = exit_counted_once[where h = "fst ?r" and ls = "snd ?r" and eid = "''e1''"
      and started = True and finished = False and f = False and v = True]
  note secure = exit_counted_once[where h = "secure_hook 2" and ls = ?ls and eid = "''e1''"
      and started = True and finished = False and f = False and v = True]
  have cnt: "exitCount (secure_hook 2) = 2"
    by (simp add: secure_hook_def initial_hook_def signals_def stored_count_def)
  note leave = exit_counted_once[where h = "secure_hook 2" and ls = ?ls and eid = "''e1''"
      and started = True and finished = False and f = False and v = True]
  have "exitCount (fst (fst (enforce ''e1'' True False (signals False True
       (fst (enforce ''e1'' True False (secure_hook 2, ?ls))))))) = exitCount (secure_hook 2) + 1"
    using leave sec by blast
  then have trans: "exitCount (fst (fst (enforce ''e1'' True False (signals False True
       (fst (enforce ''e1'' True False (secure_hook 2, ?ls))))))) = 3"
    by (simp only: cnt)
  show ?thesis
    using pre sec latch still first again secure trans by simp
qed

section \<open>The code execution flow\<close>

lemma run_cases_acc:
  "run_cases f l s n tcs rs p =
     (rs @ fst (run_cases f l s n tcs [] 0), p + snd (run_cases f l s n tcs [] 0))"
proof (induction tcs arbitrary: rs p n)
  case Nil
  show ?case by simp
next
  case (Cons tc rest)
  note IH = Cons.IH
  show ?case
  proof (cases "f n \<lparr>pr_language = l, pr_content = s, pr_stdin = tc_input tc\<rparr>")
    case (Thrown m)
    then show ?thesis
      using IH[where rs = "rs @ [x]" and p = p and n = "Suc n" for x]
        IH[where rs = "[x]" and p = 0 and n = "Suc n" for x]
      by simp
  next
    case (NotOk st b)
    then show ?thesis
      using IH[where rs = "rs @ [x]" and p = p and n = "Suc n" for x]
        IH[where rs = "[x]" and p = 0 and n = "Suc n" for x]
      by (simp add: Let_def)
  next
    case (Ran out err)
    then show ?thesis
      using IH[where rs = "rs @ [x]" and p = q and n = "Suc n" for x q]
        IH[where rs = "[x]" and p = q and n = "Suc n" for x q]
      by (simp add: Let_def)
  qed
qed

lemma length_run_cases:
  "length (fst (run_cases f l s n tcs rs p)) = length rs + length tcs"
  by (induction tcs arbitrary: rs p n) (auto simp: Let_def split: PistonReply.splits)

lemma run_cases_step:
  "run_cases f l s n (tc # rest) [] 0 =
     (fst (run_cases f l s n [tc] [] 0) @ fst (run_cases f l s (Suc n) rest [] 0),
      snd (run_cases f l s n [tc] [] 0) + snd (run_cases f l s (Suc n) rest [] 0))"
  by (cases "f n \<lparr>pr_language = l, pr_content = s, pr_stdin = tc_input tc\<rparr>")
     (simp_all add: Let_def run_cases_acc[where rs = "[x]" for x])

lemma run_cases_single:
  "\<exists>r. run_cases f l s n [tc] [] 0 = ([r], if tr_isCorrect r then 1 else 0) \<and>
       tr_input r = tc_input tc \<and> tr_expectedOutput r = tc_expectedOutput tc \<and>
       (is_failure (f n \<lparr>pr_language = l, pr_content = s, pr_stdin = tc_input tc\<rparr>) \<longrightarrow>
          \<not> tr_isCorrect r \<and> (\<exists>e. tr_error r = Some e \<and> e \<noteq> []))"
  by (cases "f n \<lparr>pr_language = l, pr_content = s, pr_stdin = tc_input tc\<rparr>")
     (auto simp: Let_def is_failure_def or_else_def ascii_def split: option.splits)

lemma run_cases_passed:
  "snd (run_cases f l s n tcs [] 0) =
     length (filter tr_isCorrect (fst (run_cases f l s n tcs [] 0)))"
proof (induction tcs arbitrary: n)
  case Nil
  show ?case by simp
next
  case (Cons tc rest)
  obtain r where r: "run_cases f l s n [tc] [] 0 = ([r], if tr_isCorrect r then 1 else 0)"
    using run_cases_single[of f l s n tc] by blast
  show ?case
    by (simp add: run_cases_step[of f l s n tc rest] r Cons.IH del: run_cases.simps)
qed

lemma run_cases_nth:
  "j < length tcs \<Longrightarrow>
     tr_input (fst (run_cases f l s n tcs [] 0) ! j) = tc_input (tcs ! j) \<and>
     tr_expectedOutput (fst (run_cases f l s n tcs [] 0) ! j) = tc_expectedOutput (tcs ! j) \<and>
     (is_failure (f (n + j) \<lparr>pr_language = l, pr_content = s, pr_stdin = tc_input (tcs ! j)\<rparr>) \<longrightarrow>
        \<not> tr_isCorrect (fst (run_cases f l s n tcs [] 0) ! j) \<and>
        (\<exists>e. tr_error (fst (run_cases f l s n tcs [] 0) ! j) = Some e \<and> e \<noteq> []))"
proof (induction tcs arbitrary: n j)
  case Nil
  then show ?case by simp
next
  case (Cons tc rest)
  obtain r where r: "run_cases f l s n [tc] [] 0 = ([r], if tr_isCorrect r then 1 else 0)"
    and r_in: "tr_input r = tc_input tc" and r_exp: "tr_expectedOutput r = tc_expectedOutput tc"
    and r_fail: "is_failure (f n \<lparr>pr_language = l, pr_content = s, pr_stdin = tc_input tc\<rparr>) \<longrightarrow>
          \<not> tr_isCorrect r \<and> (\<exists>e. tr_error r = Some e \<and> e \<noteq> [])"
    using run_cases_single[of f l s n tc] by blast
  show ?case
  proof (cases j)
    case 0
    then show ?thesis
      using r_in r_exp r_fail
      by (simp add: run_cases_step[of f l s n tc rest] r del: run_cases.simps)
  next
    case (Suc k)
    then have "k < length rest" using Cons.prems by simp
    from Cons.IH[OF this, of "Suc n"] show ?thesis
      using Suc by (simp add: run_cases_step[of f l s n tc rest] r del: run_cases.simps)
  qed
qed

text \<open>
  C10. The flow returns, for every input and every behaviour of the service: one
  result per test case, in the order of the test cases (the result at position \<open>i\<close>
  carries the input and the expected output of test case \<open>i\<close>); \<open>totalCases\<close> is the
  number of test cases; \<open>totalPassed\<close> is the number of correct results; and a call
  that threw or was refused gives a result that is not correct and has a non-empty
  \<open>error\<close>.
\<close>

theorem executeCodeFlow_well_formed:
  "length (out_results (executeCodeFlow fetch input)) = length (in_testCases input) \<and>
   (\<forall>i < length (in_testCases input).
      tr_input (out_results (executeCodeFlow fetch input) ! i) = tc_input (in_testCases input ! i) \<and>
      tr_expectedOutput (out_results (executeCodeFlow fetch input) ! i) =
        tc_expectedOutput (in_testCases input ! i)) \<and>
   out_totalCases (executeCodeFlow fetch input) = length (in_testCases input) \<and>
   out_totalPassed (executeCodeFlow fetch input) =
     length (filter tr_isCorrect (out_results (executeCodeFlow fetch input))) \<and>
   (\<forall>i < length (in_testCases input).
      is_failure (fetch i (request_of input i)) \<longrightarrow>
        \<not> tr_isCorrect (out_results (executeCodeFlow fetch input) ! i) \<and>
        (\<exists>e. tr_error (out_results (executeCodeFlow fetch input) ! i) = Some e \<and> e \<noteq> []))"
proof -
  let ?run = "run_cases fetch (languageMap (in_language input)) (in_sourceCode input) 0
                (in_testCases input) [] 0"
  have res: "out_results (executeCodeFlow fetch input) = fst ?run"
    and pas: "out_totalPassed (executeCodeFlow fetch input) = snd ?run"
    and tot: "out_totalCases (executeCodeFlow fetch input) = length (in_testCases input)"
    by (simp_all add: executeCodeFlow_def Let_def case_prod_beta)
  show ?thesis
    unfolding res pas tot request_of_def
    using run_cases_nth[of _ "in_testCases input" fetch "languageMap (in_language input)"
            "in_sourceCode input" 0]
    by (simp add: length_run_cases run_cases_passed)
qed

theorem executeCodeFlow_well_formed_witness:
  "(1::nat) < length (in_testCases three_cases) \<and>
   is_failure (flaky 1 (request_of three_cases 1)) \<and>
   is_failure (flaky 2 (request_of three_cases 2)) \<and>
   length (out_results (executeCodeFlow flaky three_cases)) = 3 \<and>
   out_totalCases (executeCodeFlow flaky three_cases) = 3 \<and>
   out_totalPassed (executeCodeFlow flaky three_cases) = 1 \<and>
   map tr_isCorrect (out_results (executeCodeFlow flaky three_cases)) = [True, False, False] \<and>
   map tr_error (out_results (executeCodeFlow flaky three_cases)) =
     [None, Some (ascii ''An unknown error occurred.''),
      Some (ascii ''API Error: Too Many Requests'')]"
proof -
  have len: "length (in_testCases three_cases) = 3"
    by (simp add: three_cases_def)
  have fail: "is_failure (flaky 1 (request_of three_cases 1))"
    "is_failure (flaky 2 (request_of three_cases 2))"
    by (simp_all add: flaky_def is_failure_def)
  have run: "map tr_isCorrect (out_results (executeCodeFlow flaky three_cases)) = [True, False, False]"
    "map tr_error (out_results (executeCodeFlow flaky three_cases)) =
       [None, Some (ascii ''An unknown error occurred.''),
        Some (ascii ''API Error: Too Many Requests'')]"
    by (simp_all add: executeCodeFlow_def flaky_def three_cases_def Let_def languageMap_def
          trim_def is_ws_def or_else_def or_undefined_def ascii_def)
  have filt: "length (filter tr_isCorrect rs) = length (filter id (map tr_isCorrect rs))" for rs
    by (induction rs) auto
  show ?thesis
    using len fail run executeCodeFlow_well_formed[of flaky three_cases]
    by (simp add: filt)
qed

section \<open>Submission of a multiple-choice or long-answer exam\<close>


lemma written_handleSubmitExam:
  "written (handleSubmitExam persist eid state user examData flag d) = [] \<or>
   (\<exists>st uid exam qs. state = Some st \<and> user = Some uid \<and> examData = Some exam \<and>
      questions exam = Some qs \<and> \<not> flag \<and>
      persist (docId uid eid) (studentExamSubmission uid eid exam qs st d) \<and>
      handleSubmitExam persist eid state user examData flag d =
        [SetIsSubmitting True, Toast ''Submitting exam...'',
         SetDocument (docId uid eid) (studentExamSubmission uid eid exam qs st d),
         DispatchFinishExam, Toast ''Exam Submitted!'', RouterPush ''/student/dashboard''])"
  by (auto simp: handleSubmitExam_def Let_def split: option.splits)

lemma written_codingHandleSubmitExam:
  "written (codingHandleSubmitExam exec persist eid qs state user examData flag d) = [] \<or>
   (\<exists>st uid exam. state = Some st \<and> user = Some uid \<and> examData = Some exam \<and> \<not> flag \<and>
      persist (docId uid eid) (submissionPayload exec uid eid exam qs st d) \<and>
      codingHandleSubmitExam exec persist eid qs state user examData flag d =
        [SetIsSubmitting True, Toast ''Submitting exam...'',
         SetDocument (docId uid eid) (submissionPayload exec uid eid exam qs st d),
         DispatchFinishExam, Toast ''Exam Submitted!'', RouterPush ''/student/dashboard''])"
  by (auto simp: codingHandleSubmitExam_def Let_def split: option.splits)














section \<open>The status of a submission\<close>

text \<open>
  C9. Every document written through \<^verbatim>\<open>handleAutoSubmit\<close>, in either interface, has the
  status \<^verbatim>\<open>suspicious\<close>, the flag \<^verbatim>\<open>autoSubmitted\<close> and the stored exit count,
  whatever the exam type. A document written from the dialog's button has the status
  \<^verbatim>\<open>graded\<close> for a multiple-choice exam and \<^verbatim>\<open>completed\<close> for a long-answer exam,
  and in the coding interface \<^verbatim>\<open>graded\<close>.
\<close>

theorem submission_status:
  "(\<forall>p \<in> set (written (handleAutoSubmit ls persist eid state user examData flag)).
      sub_status p = suspicious \<and> sub_autoSubmitted p = Some True \<and>
      sub_exitCount p = Some (stored_count ls eid)) \<and>
   (\<forall>p \<in> set (written (codingHandleAutoSubmit ls exec persist eid qs cstate user examData flag)).
      sub_status p = suspicious \<and> sub_autoSubmitted p = Some True \<and>
      sub_exitCount p = Some (stored_count ls eid)) \<and>
   (\<forall>p \<in> set (written (submitButton n persist eid state user examData flag)).
      \<forall>exam. examData = Some exam \<longrightarrow>
        (examType exam = mcq \<longrightarrow> sub_status p = graded) \<and>
        (examType exam = long_answer \<longrightarrow> sub_status p = completed)) \<and>
   (\<forall>p \<in> set (written (codingHandleSubmitExam exec persist eid qs cstate user examData flag None)).
      sub_status p = graded)"
proof -
  have 1: "\<forall>p \<in> set (written (handleAutoSubmit ls persist eid state user examData flag)).
      sub_status p = suspicious \<and> sub_autoSubmitted p = Some True \<and>
      sub_exitCount p = Some (stored_count ls eid)"
    using written_handleSubmitExam[of persist eid state user examData flag
        "Some \<lparr>d_autoSubmitted = True, d_exitCount = stored_count ls eid\<rparr>"]
    by (auto simp: handleAutoSubmit_def studentExamSubmission_def Let_def case_prod_beta)
  have 2: "\<forall>p \<in> set (written (codingHandleAutoSubmit ls exec persist eid qs cstate user examData flag)).
      sub_status p = suspicious \<and> sub_autoSubmitted p = Some True \<and>
      sub_exitCount p = Some (stored_count ls eid)"
    using written_codingHandleSubmitExam[of exec persist eid qs cstate user examData flag
        "Some \<lparr>d_autoSubmitted = True, d_exitCount = stored_count ls eid\<rparr>"]
    by (auto simp: codingHandleAutoSubmit_def submissionPayload_def Let_def case_prod_beta)
  have 3: "\<forall>p \<in> set (written (submitButton n persist eid state user examData flag)).
      \<forall>exam. examData = Some exam \<longrightarrow>
        (examType exam = mcq \<longrightarrow> sub_status p = graded) \<and>
        (examType exam = long_answer \<longrightarrow> sub_status p = completed)"
    using written_handleSubmitExam[of persist eid state user examData flag
        "Some \<lparr>d_autoSubmitted = False, d_exitCount = n\<rparr>"]
    by (auto simp: submitButton_def studentExamSubmission_def Let_def case_prod_beta)
  have 4: "\<forall>p \<in> set (written (codingHandleSubmitExam exec persist eid qs cstate user examData flag None)).
      sub_status p = graded"
    using written_codingHandleSubmitExam[of exec persist eid qs cstate user examData flag None]
    by (auto simp: submissionPayload_def Let_def case_prod_beta)
  from 1 2 3 4 show ?thesis by blast
qed



theorem submission_status_witness:
  "stored_count [storageKey ''e1'' \<mapsto> 6] ''e1'' = 6 \<and>
   map sub_status (written (handleAutoSubmit [storageKey ''e1'' \<mapsto> 6] persist_ok ''e1''
       (Some quiz_session) (Some ''u1'') (Some quiz) False)) = [suspicious] \<and>
   map sub_exitCount (written (handleAutoSubmit [storageKey ''e1'' \<mapsto> 6] persist_ok ''e1''
       (Some quiz_session) (Some ''u1'') (Some quiz) False)) = [Some 6] \<and>
   map sub_autoSubmitted (written (handleAutoSubmit [storageKey ''e1'' \<mapsto> 6] persist_ok ''e1''
       (Some essay_session) (Some ''u1'') (Some essay) False)) = [Some True] \<and>
   map sub_status (written (handleAutoSubmit [storageKey ''e1'' \<mapsto> 6] persist_ok ''e1''
       (Some essay_session) (Some ''u1'') (Some essay) False)) = [suspicious] \<and>
   map sub_status (written (codingHandleAutoSubmit [storageKey ''e1'' \<mapsto> 6] second_call_fails
       persist_ok ''e1'' coding_questions (Some coding_session) (Some ''u1'') (Some coding_exam)
       False)) = [suspicious] \<and>
   map sub_status (written (submitButton 2 persist_ok ''e1''
       (Some quiz_session) (Some ''u1'') (Some quiz) False)) = [graded] \<and>
   map sub_status (written (submitButton 2 persist_ok ''e1''
       (Some essay_session) (Some ''u1'') (Some essay) False)) = [completed] \<and>
   map sub_status (written (codingHandleSubmitExam second_call_fails persist_ok ''e1''
       coding_questions (Some coding_session) (Some ''u1'') (Some coding_exam) False None))
     = [graded]"
proof -
  let ?ls = "[storageKey ''e1'' \<mapsto> (6::int)]"
  let ?aq = "handleAutoSubmit ?ls persist_ok ''e1'' (Some quiz_session) (Some ''u1'') (Some quiz) False"
  let ?ae = "handleAutoSubmit ?ls persist_ok ''e1'' (Some essay_session) (Some ''u1'') (Some essay) False"
  let ?ac = "codingHandleAutoSubmit ?ls second_call_fails persist_ok ''e1'' coding_questions
       (Some coding_session) (Some ''u1'') (Some coding_exam) False"
  let ?mq = "submitButton 2 persist_ok ''e1'' (Some quiz_session) (Some ''u1'') (Some quiz) False"
  let ?me = "submitButton 2 persist_ok ''e1'' (Some essay_session) (Some ''u1'') (Some essay) False"
  let ?mc = "codingHandleSubmitExam second_call_fails persist_ok ''e1''
       coding_questions (Some coding_session) (Some ''u1'') (Some coding_exam) False None"
  have cnt: "stored_count ?ls ''e1'' = 6"
    by (simp add: stored_count_def)
  have ty: "examType quiz = mcq" "examType essay = long_answer"
    by (simp_all add: quiz_def essay_def)
  have one: "\<exists>p. written ?aq = [p]" "\<exists>p. written ?ae = [p]" "\<exists>p. written ?ac = [p]"
    "\<exists>p. written ?mq = [p]" "\<exists>p. written ?me = [p]" "\<exists>p. written ?mc = [p]"
    by (simp_all add: handleAutoSubmit_def codingHandleAutoSubmit_def submitButton_def
          handleSubmitExam_def codingHandleSubmitExam_def persist_ok_def quiz_def essay_def Let_def)
  note st = submission_status
  show ?thesis
    using cnt ty one
      st[of ?ls persist_ok "''e1''" "Some quiz_session" "Some ''u1''" "Some quiz" False
         second_call_fails coding_questions "Some coding_session" 2]
      st[of ?ls persist_ok "''e1''" "Some essay_session" "Some ''u1''" "Some essay" False
         second_call_fails coding_questions "Some coding_session" 2]
      st[of ?ls persist_ok "''e1''" "Some quiz_session" "Some ''u1''" "Some coding_exam" False
         second_call_fails coding_questions "Some coding_session" 2]
    by auto
qed

section \<open>Submission of a coding exam\<close>

lemma grade_loop_acc:
  "fst (grade_loop exec st i qs fa tm) = fa @ fst (grade_loop exec st i qs [] 0)"
proof (induction qs arbitrary: fa tm i)
  case Nil
  show ?case by simp
next
  case (Cons q rest)
  note IH = Cons.IH
  show ?case
    using IH[where fa = "fa @ [x]" and tm = t and i = "Suc i" for x t]
      IH[where fa = "[x]" and tm = t and i = "Suc i" for x t]
    by (simp split: option.splits sum.splits prod.splits)
qed

lemma grade_loop_step:
  "fst (grade_loop exec st i (q # rest) [] 0) =
     fst (grade_loop exec st i [q] [] 0) @ fst (grade_loop exec st (Suc i) rest [] 0)"
  by (simp add: grade_loop_acc[where fa = "[x]" for x] split: option.splits sum.splits prod.splits)

lemma grade_loop_single_shape:
  "\<exists>a. fst (grade_loop exec st i [q] [] 0) = [a]"
proof (cases "submittable (map_get (c_answers st) (q_id q))")
  case None
  then show ?thesis by simp
next
  case (Some p)
  obtain answer src where p: "p = (answer, src)" by (cases p)
  show ?thesis
  proof (cases "exec i \<lparr>in_language = c_language st, in_sourceCode = src,
                         in_testCases = testCases_of q\<rparr>")
    case (Inl e)
    with Some p show ?thesis by simp
  next
    case (Inr r)
    with Some p show ?thesis by simp
  qed
qed

lemma grade_loop_single:
  "questionId (hd (fst (grade_loop exec st i [q] [] 0))) = q_id q \<and>
       ((map_get (c_answers st) (q_id q) = None \<or>
         (\<exists>answer. map_get (c_answers st) (q_id q) = Some answer \<and>
            (sourceCode answer = None \<or> sourceCode answer = Some []))) \<longrightarrow>
          marks (hd (fst (grade_loop exec st i [q] [] 0))) = Some 0 \<and>
          testResults (hd (fst (grade_loop exec st i [q] [] 0))) = Some [] \<and>
          status (hd (fst (grade_loop exec st i [q] [] 0))) = Some not_answered) \<and>
       (map_get (c_answers st) (q_id q) = Some answer \<and> sourceCode answer = Some src \<and>
           src \<noteq> [] \<longrightarrow>
          (exec i \<lparr>in_language = c_language st, in_sourceCode = src,
                         in_testCases = testCases_of q\<rparr> = Inr r \<longrightarrow>
             marks (hd (fst (grade_loop exec st i [q] [] 0))) =
               Some (if 0 < out_totalCases r
                     then dmul (ddiv (of_nat (out_totalPassed r)) (of_nat (out_totalCases r))) 100
                     else 0) \<and>
             testResults (hd (fst (grade_loop exec st i [q] [] 0))) = Some (out_results r) \<and>
             status (hd (fst (grade_loop exec st i [q] [] 0))) =
               Some (if out_totalPassed r = out_totalCases r then answered else not_answered)) \<and>
          (exec i \<lparr>in_language = c_language st, in_sourceCode = src,
                         in_testCases = testCases_of q\<rparr> = Inl e \<longrightarrow>
             marks (hd (fst (grade_loop exec st i [q] [] 0))) = Some 0 \<and>
             testResults (hd (fst (grade_loop exec st i [q] [] 0))) =
               Some (map failed_result (testCases_of q)) \<and>
             status (hd (fst (grade_loop exec st i [q] [] 0))) = Some not_answered))"
  by (auto simp: submittable_def blank_answer_def marksForQuestion_def
        split: option.splits sum.splits)

lemma grade_loop_length:
  "length (fst (grade_loop exec st i qs fa tm)) = length fa + length qs"
  by (induction qs arbitrary: fa tm i) (auto split: option.splits sum.splits)

lemma grade_loop_nth:
  "j < length qs \<Longrightarrow>
     fst (grade_loop exec st i qs [] 0) ! j = hd (fst (grade_loop exec st (i + j) [qs ! j] [] 0))"
proof (induction qs arbitrary: i j)
  case Nil
  then show ?case by simp
next
  case (Cons q rest)
  obtain a where a: "fst (grade_loop exec st i [q] [] 0) = [a]"
    using grade_loop_single_shape[of exec st i q] by blast
  show ?case
  proof (cases j)
    case 0
    then show ?thesis
      by (simp add: grade_loop_step[of exec st i q rest] a del: grade_loop.simps)
  next
    case (Suc k)
    then have "k < length rest" using Cons.prems by simp
    from Cons.IH[OF this, of "Suc i"] show ?thesis
      using Suc by (simp add: grade_loop_step[of exec st i q rest] a del: grade_loop.simps)
  qed
qed

lemma failed_results_marked:
  "list_all (\<lambda>t. \<not> tr_isCorrect t \<and> tr_error t = Some (ascii ''Submission execution failed''))
     (map failed_result tcs)"
  by (induction tcs) (simp_all add: failed_result_def)

lemma ddiv_zero: "ddiv 0 b = 0"
  by (simp add: ddiv_def round_double_def)

lemma dmul_one_of_one: "dmul (ddiv 1 1) 100 = 100"
  by code_simp

lemma dmul_one_of_three: "dmul (ddiv 1 3) 100 = 2345624805922133 / 70368744177664"
  by code_simp

text \<open>
  C3. The claim that every question is executed again and marked by the share of passed
  test cases fails for a question without source: the loop skips it before the call. An
  empty program passes the one test of \<open>quiet_question\<close>, which would be 100 marks; the
  submission gives 0 marks and no test results.
\<close>

theorem untouched_question_not_executed:
  "map_get (c_answers untouched_session) (q_id quiet_question)
     = Some ((blank_answer ''q1'')\<lparr>sourceCode := Some []\<rparr>) \<and>
   exec_silent 0 \<lparr>in_language = c_language untouched_session, in_sourceCode = [],
                   in_testCases = testCases_of quiet_question\<rparr>
     = Inr \<lparr>out_results = [\<lparr>tr_input = [], tr_expectedOutput = [], tr_actualOutput = [],
                               tr_isCorrect = True, tr_error = None\<rparr>],
            out_totalPassed = 1, out_totalCases = 1\<rparr> \<and>
   marks (sub_answers (submissionPayload exec_silent ''u1'' ''e1'' coding_exam [quiet_question]
            untouched_session None) ! 0) = Some 0 \<and>
   testResults (sub_answers (submissionPayload exec_silent ''u1'' ''e1'' coding_exam [quiet_question]
            untouched_session None) ! 0) = Some [] \<and>
   score (submissionPayload exec_silent ''u1'' ''e1'' coding_exam [quiet_question]
            untouched_session None) = 0"
  by (simp add: untouched_session_def quiet_question_def exec_silent_def executeCodeFlow_def
        silent_def testCases_of_def submissionPayload_def submittable_def blank_answer_def
        Let_def trim_def or_else_def or_undefined_def ddiv_zero)

text \<open>
  C3, as amended. The submission has one entry per question. A question whose stored
  answer is missing or has no source gets 0 marks and no test results, without a call.
  For a question with source, the call made for it gets the current language, the stored
  source and the question's test cases; if it returns, the marks are the JavaScript value
  of \<^verbatim>\<open>(passed / total) * 100\<close> for the numbers returned, a quotient and a product of
  doubles (1 of 3 gives 33.33333333333333), and 0 for a total of 0 (so 0 for a question
  without test cases, when the flow of this repository answers), with the returned
  results; if it is rejected, the marks are 0 and the results are one failing result per
  test case with the marker \<^verbatim>\<open>Submission execution failed\<close>. None of this depends on the
  results stored by earlier runs or on the other questions, and the document is written
  whenever the write returns.
\<close>

theorem coding_submission_scores:
  "length (sub_answers (submissionPayload exec uid eid exam qs st d)) = length qs \<and>
   (i < length qs \<longrightarrow>
      questionId (sub_answers (submissionPayload exec uid eid exam qs st d) ! i) = q_id (qs ! i) \<and>
      ((case map_get (c_answers st) (q_id (qs ! i)) of
          None \<Rightarrow> True
        | Some stored \<Rightarrow> sourceCode stored = None \<or> sourceCode stored = Some []) \<longrightarrow>
         marks (sub_answers (submissionPayload exec uid eid exam qs st d) ! i) = Some 0 \<and>
         testResults (sub_answers (submissionPayload exec uid eid exam qs st d) ! i) = Some []) \<and>
      (map_get (c_answers st) (q_id (qs ! i)) = Some answer \<and> sourceCode answer = Some src \<and>
       src \<noteq> [] \<longrightarrow>
         (exec i \<lparr>in_language = c_language st, in_sourceCode = src,
                   in_testCases = testCases_of (qs ! i)\<rparr> = Inr r \<longrightarrow>
            marks (sub_answers (submissionPayload exec uid eid exam qs st d) ! i) =
              Some (if 0 < out_totalCases r
                    then dmul (ddiv (of_nat (out_totalPassed r)) (of_nat (out_totalCases r))) 100
                    else 0) \<and>
            testResults (sub_answers (submissionPayload exec uid eid exam qs st d) ! i) =
              Some (out_results r) \<and>
            (r = executeCodeFlow fetch \<lparr>in_language = c_language st, in_sourceCode = src,
                   in_testCases = testCases_of (qs ! i)\<rparr> \<and> testCases_of (qs ! i) = [] \<longrightarrow>
               marks (sub_answers (submissionPayload exec uid eid exam qs st d) ! i) = Some 0)) \<and>
         (exec i \<lparr>in_language = c_language st, in_sourceCode = src,
                   in_testCases = testCases_of (qs ! i)\<rparr> = Inl e \<longrightarrow>
            marks (sub_answers (submissionPayload exec uid eid exam qs st d) ! i) = Some 0 \<and>
            testResults (sub_answers (submissionPayload exec uid eid exam qs st d) ! i) =
              Some (map failed_result (testCases_of (qs ! i))) \<and>
            list_all (\<lambda>t. \<not> tr_isCorrect t \<and>
                          tr_error t = Some (ascii ''Submission execution failed''))
              (map failed_result (testCases_of (qs ! i)))))) \<and>
   (persist (docId uid eid) (submissionPayload exec uid eid exam qs st d) \<longrightarrow>
      written (codingHandleSubmitExam exec persist eid qs (Some st) (Some uid) (Some exam) False d)
        = [submissionPayload exec uid eid exam qs st d])"
proof -
  let ?g = "grade_loop exec st 0 qs [] 0"
  let ?P = "submissionPayload exec uid eid exam qs st d"
  have ans: "sub_answers ?P = fst ?g"
    by (simp add: submissionPayload_def Let_def case_prod_beta)
  have len: "length (sub_answers ?P) = length qs"
    unfolding ans by (simp add: grade_loop_length)
  have wr: "persist (docId uid eid) ?P \<longrightarrow>
      written (codingHandleSubmitExam exec persist eid qs (Some st) (Some uid) (Some exam) False d)
        = [?P]"
    by (simp add: codingHandleSubmitExam_def Let_def)
  have nth: "i < length qs \<Longrightarrow>
      sub_answers ?P ! i = hd (fst (grade_loop exec st i [qs ! i] [] 0))"
    unfolding ans using grade_loop_nth[of i qs exec st 0] by simp
  have noTests: "out_totalCases (executeCodeFlow fetch inp) = length (in_testCases inp)" for inp
    by (simp add: executeCodeFlow_def Let_def case_prod_beta)
  have per: "i < length qs \<longrightarrow>
      questionId (sub_answers ?P ! i) = q_id (qs ! i) \<and>
      ((case map_get (c_answers st) (q_id (qs ! i)) of
          None \<Rightarrow> True
        | Some stored \<Rightarrow> sourceCode stored = None \<or> sourceCode stored = Some []) \<longrightarrow>
         marks (sub_answers ?P ! i) = Some 0 \<and> testResults (sub_answers ?P ! i) = Some []) \<and>
      (map_get (c_answers st) (q_id (qs ! i)) = Some answer \<and> sourceCode answer = Some src \<and>
       src \<noteq> [] \<longrightarrow>
         (exec i \<lparr>in_language = c_language st, in_sourceCode = src,
                   in_testCases = testCases_of (qs ! i)\<rparr> = Inr r \<longrightarrow>
            marks (sub_answers ?P ! i) =
              Some (if 0 < out_totalCases r
                    then dmul (ddiv (of_nat (out_totalPassed r)) (of_nat (out_totalCases r))) 100
                    else 0) \<and>
            testResults (sub_answers ?P ! i) = Some (out_results r) \<and>
            (r = executeCodeFlow fetch \<lparr>in_language = c_language st, in_sourceCode = src,
                   in_testCases = testCases_of (qs ! i)\<rparr> \<and> testCases_of (qs ! i) = [] \<longrightarrow>
               marks (sub_answers ?P ! i) = Some 0)) \<and>
         (exec i \<lparr>in_language = c_language st, in_sourceCode = src,
                   in_testCases = testCases_of (qs ! i)\<rparr> = Inl e \<longrightarrow>
            marks (sub_answers ?P ! i) = Some 0 \<and>
            testResults (sub_answers ?P ! i) = Some (map failed_result (testCases_of (qs ! i))) \<and>
            list_all (\<lambda>t. \<not> tr_isCorrect t \<and>
                          tr_error t = Some (ascii ''Submission execution failed''))
              (map failed_result (testCases_of (qs ! i)))))"
  proof
    assume i: "i < length qs"
    let ?a = "hd (fst (grade_loop exec st i [qs ! i] [] 0))"
    let ?inp = "\<lparr>in_language = c_language st, in_sourceCode = src,
                   in_testCases = testCases_of (qs ! i)\<rparr>"
    note single = grade_loop_single[of exec st i "qs ! i" answer src r e]
    have a: "sub_answers ?P ! i = ?a" by (rule nth[OF i])
    have qid: "questionId ?a = q_id (qs ! i)"
      using single by blast
    have nosrc: "marks ?a = Some 0 \<and> testResults ?a = Some []"
      if "case map_get (c_answers st) (q_id (qs ! i)) of
          None \<Rightarrow> True
        | Some stored \<Rightarrow> sourceCode stored = None \<or> sourceCode stored = Some []"
    proof -
      from that have "map_get (c_answers st) (q_id (qs ! i)) = None \<or>
           (\<exists>answer. map_get (c_answers st) (q_id (qs ! i)) = Some answer \<and>
              (sourceCode answer = None \<or> sourceCode answer = Some []))"
        by (cases "map_get (c_answers st) (q_id (qs ! i))") simp_all
      with single show ?thesis by blast
    qed
    have ok: "marks ?a = Some (if 0 < out_totalCases r
                    then dmul (ddiv (of_nat (out_totalPassed r)) (of_nat (out_totalCases r))) 100
                    else 0) \<and>
            testResults ?a = Some (out_results r) \<and>
            (r = executeCodeFlow fetch ?inp \<and> testCases_of (qs ! i) = [] \<longrightarrow> marks ?a = Some 0)"
      if src: "map_get (c_answers st) (q_id (qs ! i)) = Some answer \<and> sourceCode answer = Some src \<and>
         src \<noteq> []" and r: "exec i ?inp = Inr r"
    proof -
      have m: "marks ?a = Some (if 0 < out_totalCases r
                    then dmul (ddiv (of_nat (out_totalPassed r)) (of_nat (out_totalCases r))) 100
                    else 0)"
        and t: "testResults ?a = Some (out_results r)"
        using single src r by blast+
      have "marks ?a = Some 0"
        if "r = executeCodeFlow fetch ?inp \<and> testCases_of (qs ! i) = []"
        using m that noTests[of ?inp] by simp
      with m t show ?thesis by blast
    qed
    have failed: "marks ?a = Some 0 \<and>
            testResults ?a = Some (map failed_result (testCases_of (qs ! i))) \<and>
            list_all (\<lambda>t. \<not> tr_isCorrect t \<and>
                          tr_error t = Some (ascii ''Submission execution failed''))
              (map failed_result (testCases_of (qs ! i)))"
      if src: "map_get (c_answers st) (q_id (qs ! i)) = Some answer \<and> sourceCode answer = Some src \<and>
         src \<noteq> []" and e: "exec i ?inp = Inl e"
      using single src e failed_results_marked[of "testCases_of (qs ! i)"] by blast
    show "questionId (sub_answers ?P ! i) = q_id (qs ! i) \<and>
      ((case map_get (c_answers st) (q_id (qs ! i)) of
          None \<Rightarrow> True
        | Some stored \<Rightarrow> sourceCode stored = None \<or> sourceCode stored = Some []) \<longrightarrow>
         marks (sub_answers ?P ! i) = Some 0 \<and> testResults (sub_answers ?P ! i) = Some []) \<and>
      (map_get (c_answers st) (q_id (qs ! i)) = Some answer \<and> sourceCode answer = Some src \<and>
       src \<noteq> [] \<longrightarrow>
         (exec i ?inp = Inr r \<longrightarrow>
            marks (sub_answers ?P ! i) =
              Some (if 0 < out_totalCases r
                    then dmul (ddiv (of_nat (out_totalPassed r)) (of_nat (out_totalCases r))) 100
                    else 0) \<and>
            testResults (sub_answers ?P ! i) = Some (out_results r) \<and>
            (r = executeCodeFlow fetch ?inp \<and> testCases_of (qs ! i) = [] \<longrightarrow>
               marks (sub_answers ?P ! i) = Some 0)) \<and>
         (exec i ?inp = Inl e \<longrightarrow>
            marks (sub_answers ?P ! i) = Some 0 \<and>
            testResults (sub_answers ?P ! i) = Some (map failed_result (testCases_of (qs ! i))) \<and>
            list_all (\<lambda>t. \<not> tr_isCorrect t \<and>
                          tr_error t = Some (ascii ''Submission execution failed''))
              (map failed_result (testCases_of (qs ! i)))))"
      unfolding a using qid nosrc ok failed by blast
  qed
  from len per wr show ?thesis by blast
qed

theorem coding_submission_scores_witness:
  "(2::nat) < length coding_questions \<and>
   map_get (c_answers coding_session) (q_id (coding_questions ! 0))
     = Some ((blank_answer ''q1'')\<lparr>sourceCode := Some ''print(4)''\<rparr>) \<and>
   second_call_fails 0 \<lparr>in_language = c_language coding_session, in_sourceCode = ''print(4)'',
       in_testCases = testCases_of (coding_questions ! 0)\<rparr>
     = Inr \<lparr>out_results = [\<lparr>tr_input = ascii ''2 2'', tr_expectedOutput = ascii ''4'',
                               tr_actualOutput = ascii ''4'',
                               tr_isCorrect = True, tr_error = None\<rparr>],
            out_totalPassed = 1, out_totalCases = 1\<rparr> \<and>
   marks (sub_answers (submissionPayload second_call_fails ''u1'' ''e1'' coding_exam
       coding_questions coding_session None) ! 0) = Some 100 \<and>
   map_get (c_answers coding_session) (q_id (coding_questions ! 1))
     = Some ((blank_answer ''q2'')\<lparr>sourceCode := Some ''print(2+2)''\<rparr>) \<and>
   second_call_fails 1 \<lparr>in_language = c_language coding_session, in_sourceCode = ''print(2+2)'',
       in_testCases = testCases_of (coding_questions ! 1)\<rparr> = Inl ''Failed to fetch'' \<and>
   marks (sub_answers (submissionPayload second_call_fails ''u1'' ''e1'' coding_exam
       coding_questions coding_session None) ! 1) = Some 0 \<and>
   map tr_error (the (testResults (sub_answers (submissionPayload second_call_fails ''u1'' ''e1''
       coding_exam coding_questions coding_session None) ! 1)))
     = [Some (ascii ''Submission execution failed'')] \<and>
   map_get (c_answers coding_session) (q_id (coding_questions ! 2))
     = Some ((blank_answer ''q3'')\<lparr>sourceCode := Some []\<rparr>) \<and>
   marks (sub_answers (submissionPayload second_call_fails ''u1'' ''e1'' coding_exam
       coding_questions coding_session None) ! 2) = Some 0 \<and>
   written (codingHandleSubmitExam second_call_fails persist_ok ''e1'' coding_questions
       (Some coding_session) (Some ''u1'') (Some coding_exam) False None)
     = [submissionPayload second_call_fails ''u1'' ''e1'' coding_exam coding_questions
          coding_session None] \<and>
   map_get (c_answers partial_session) (q_id ([partial_question] ! 0))
     = Some ((blank_answer ''q1'')\<lparr>sourceCode := Some ''main''\<rparr>) \<and>
   exec_flaky 0 \<lparr>in_language = c_language partial_session, in_sourceCode = ''main'',
       in_testCases = testCases_of ([partial_question] ! 0)\<rparr>
     = Inr (executeCodeFlow flaky three_cases) \<and>
   out_totalPassed (executeCodeFlow flaky three_cases) = 1 \<and>
   out_totalCases (executeCodeFlow flaky three_cases) = 3 \<and>
   marks (sub_answers (submissionPayload exec_flaky ''u1'' ''e1'' coding_exam
       [partial_question] partial_session None) ! 0) = Some (2345624805922133 / 2 ^ 46) \<and>
   marks (sub_answers (submissionPayload exec_flaky ''u1'' ''e1'' coding_exam
       [partial_question] partial_session None) ! 0) \<noteq> Some (100 / 3)"
proof -
  let ?P = "submissionPayload second_call_fails ''u1'' ''e1'' coding_exam coding_questions
       coding_session None"
  let ?Q = "submissionPayload exec_flaky ''u1'' ''e1'' coding_exam [partial_question]
       partial_session None"
  let ?a0 = "(blank_answer ''q1'')\<lparr>sourceCode := Some ''print(4)''\<rparr>"
  let ?a1 = "(blank_answer ''q2'')\<lparr>sourceCode := Some ''print(2+2)''\<rparr>"
  let ?a2 = "(blank_answer ''q3'')\<lparr>sourceCode := Some []\<rparr>"
  let ?b0 = "(blank_answer ''q1'')\<lparr>sourceCode := Some ''main''\<rparr>"
  let ?inp0 = "\<lparr>in_language = c_language coding_session, in_sourceCode = ''print(4)'',
       in_testCases = testCases_of (coding_questions ! 0)\<rparr>"
  let ?inp1 = "\<lparr>in_language = c_language coding_session, in_sourceCode = ''print(2+2)'',
       in_testCases = testCases_of (coding_questions ! 1)\<rparr>"
  let ?inq = "\<lparr>in_language = c_language partial_session, in_sourceCode = ''main'',
       in_testCases = testCases_of ([partial_question] ! 0)\<rparr>"
  let ?r0 = "\<lparr>out_results = [\<lparr>tr_input = ascii ''2 2'', tr_expectedOutput = ascii ''4'',
                               tr_actualOutput = ascii ''4'',
                               tr_isCorrect = True, tr_error = None\<rparr>],
            out_totalPassed = 1, out_totalCases = 1\<rparr>"
  let ?rq = "executeCodeFlow flaky three_cases"
  have len: "(0::nat) < length coding_questions" "(1::nat) < length coding_questions"
    "(2::nat) < length coding_questions" "(0::nat) < length [partial_question]"
    by (simp_all add: coding_questions_def)
  have stored0: "map_get (c_answers coding_session) (q_id (coding_questions ! 0)) = Some ?a0"
    and src0: "sourceCode ?a0 = Some ''print(4)''" "''print(4)'' \<noteq> []"
    and stored1: "map_get (c_answers coding_session) (q_id (coding_questions ! 1)) = Some ?a1"
    and src1: "sourceCode ?a1 = Some ''print(2+2)''" "''print(2+2)'' \<noteq> []"
    and stored2: "map_get (c_answers coding_session) (q_id (coding_questions ! 2)) = Some ?a2"
    and src2: "sourceCode ?a2 = Some []"
    by (simp_all add: coding_session_def coding_questions_def coding_question_def)
  have storedq: "map_get (c_answers partial_session) (q_id ([partial_question] ! 0)) = Some ?b0"
    and srcq: "sourceCode ?b0 = Some ''main''" "''main'' \<noteq> []"
    by (simp_all add: partial_session_def partial_question_def)
  have tcs: "testCases_of (coding_questions ! 1)
      = [\<lparr> tc_id = Some ''t1'', tc_input = ascii ''2 2'', tc_expectedOutput = ascii ''4'' \<rparr>]"
    by (simp add: coding_questions_def coding_question_def testCases_of_def)
  have runs: "second_call_fails 0 ?inp0 = Inr ?r0"
    by (simp add: second_call_fails_def executeCodeFlow_def prints4_def coding_questions_def
          coding_question_def testCases_of_def Let_def trim_def is_ws_def or_else_def
          or_undefined_def ascii_def)
  have fails: "second_call_fails 1 ?inp1 = Inl ''Failed to fetch''"
    by (simp add: second_call_fails_def)
  have "?inq = three_cases"
    by (simp add: partial_session_def partial_question_def testCases_of_def three_cases_def)
  then have runq: "exec_flaky 0 ?inq = Inr ?rq"
    by (simp add: exec_flaky_def)
  have cnt: "out_totalPassed ?rq = 1" "out_totalCases ?rq = 3"
    by (simp_all add: executeCodeFlow_def flaky_def three_cases_def Let_def languageMap_def
          trim_def is_ws_def or_else_def or_undefined_def ascii_def)
  have pers: "persist_ok (docId ''u1'' ''e1'') ?P"
    by (simp add: persist_ok_def)
  note inst0 = coding_submission_scores[where exec = second_call_fails and uid = "''u1''"
      and eid = "''e1''" and exam = coding_exam and qs = coding_questions
      and st = coding_session and d = None and i = 0 and answer = ?a0
      and src = "''print(4)''" and r = ?r0 and persist = persist_ok]
  note inst1 = coding_submission_scores[where exec = second_call_fails and uid = "''u1''"
      and eid = "''e1''" and exam = coding_exam and qs = coding_questions
      and st = coding_session and d = None and i = 1 and answer = ?a1
      and src = "''print(2+2)''" and e = "''Failed to fetch''" and persist = persist_ok]
  note inst2 = coding_submission_scores[where exec = second_call_fails and uid = "''u1''"
      and eid = "''e1''" and exam = coding_exam and qs = coding_questions
      and st = coding_session and d = None and i = 2 and persist = persist_ok]
  note instq = coding_submission_scores[where exec = exec_flaky and uid = "''u1''"
      and eid = "''e1''" and exam = coding_exam and qs = "[partial_question]"
      and st = partial_session and d = None and i = 0 and answer = ?b0
      and src = "''main''" and r = ?rq and persist = persist_ok]
  have "marks (sub_answers ?P ! 0) =
      Some (if 0 < out_totalCases ?r0
            then dmul (ddiv (of_nat (out_totalPassed ?r0)) (of_nat (out_totalCases ?r0))) 100
            else 0)"
    using inst0 len(1) stored0 src0 runs by blast
  then have "marks (sub_answers ?P ! 0) = Some (dmul (ddiv 1 1) 100)"
    by simp
  then have m0: "marks (sub_answers ?P ! 0) = Some 100"
    unfolding dmul_one_of_one .
  have m1: "marks (sub_answers ?P ! 1) = Some 0"
    and second: "testResults (sub_answers ?P ! 1)
                   = Some (map failed_result (testCases_of (coding_questions ! 1)))"
    using inst1 len(2) stored1 src1 fails by blast+
  have nosrc: "case map_get (c_answers coding_session) (q_id (coding_questions ! 2)) of
          None \<Rightarrow> True
        | Some stored \<Rightarrow> sourceCode stored = None \<or> sourceCode stored = Some []"
    by (simp add: stored2)
  have m2: "marks (sub_answers ?P ! 2) = Some 0"
    using inst2 len(3) nosrc by blast
  have wr: "written (codingHandleSubmitExam second_call_fails persist_ok ''e1'' coding_questions
       (Some coding_session) (Some ''u1'') (Some coding_exam) False None) = [?P]"
    using inst1 pers by blast
  have "marks (sub_answers ?Q ! 0) =
      Some (if 0 < out_totalCases ?rq
            then dmul (ddiv (of_nat (out_totalPassed ?rq)) (of_nat (out_totalCases ?rq))) 100
            else 0)"
    using instq len(4) storedq srcq runq by blast
  then have "marks (sub_answers ?Q ! 0) = Some (dmul (ddiv 1 3) 100)"
    unfolding cnt by simp
  then have mq: "marks (sub_answers ?Q ! 0) = Some (2345624805922133 / 2 ^ 46)"
    unfolding dmul_one_of_three by simp
  then have mq': "marks (sub_answers ?Q ! 0) \<noteq> Some (100 / 3)"
    by simp
  have errs: "map tr_error (the (testResults (sub_answers ?P ! 1)))
      = [Some (ascii ''Submission execution failed'')]"
    unfolding second tcs by (simp add: failed_result_def)
  show ?thesis
    using len(3) stored0 runs m0 stored1 fails m1 errs stored2 m2 wr storedq runq cnt mq mq'
    by blast
qed

section \<open>Two triggers served by one render\<close>


end
